theory Spec2Isabelle
  imports Main
begin

section \<open>Python values and text\<close>

text \<open>
  The client of \<^verbatim>\<open>pf400_client.py\<close> never computes with a joint value or a profile
  parameter: it reads them from the JSON configuration and prints them with \<^verbatim>\<open>str\<close>.
  A Python \<^verbatim>\<open>int\<close> is kept as an \<open>int\<close>; a Python \<^verbatim>\<open>float\<close> is kept as the text
  \<^verbatim>\<open>str\<close> gives for it (\<^verbatim>\<open>str(120.0)\<close> is \<^verbatim>\<open>120.0\<close>).
\<close>

datatype pynum = PyInt int | PyFloat string

definition digit_char :: "nat \<Rightarrow> char" where
  "digit_char d = ''0123456789'' ! d"

fun str_nat :: "nat \<Rightarrow> string" where
  "str_nat n = (if n < 10 then [digit_char n] else str_nat (n div 10) @ [digit_char (n mod 10)])"

declare str_nat.simps [simp del]

definition str_int :: "int \<Rightarrow> string" where
  "str_int i = (if i < 0 then CHR ''-'' # str_nat (nat (- i)) else str_nat (nat i))"

fun str_num :: "pynum \<Rightarrow> string" where
  "str_num (PyInt i) = str_int i"
| "str_num (PyFloat t) = t"

text \<open>\<^verbatim>\<open>s.split(" ")\<close>: cut at every single space; two spaces in a row give an empty piece.\<close>

fun split_on :: "char \<Rightarrow> string \<Rightarrow> string list" where
  "split_on c [] = [[]]"
| "split_on c (x # xs) =
     (if x = c then [] # split_on c xs
      else (case split_on c xs of w # ws \<Rightarrow> (x # w) # ws | [] \<Rightarrow> [[x]]))"

text \<open>
  \<^verbatim>\<open>s.upper()\<close> on ASCII text (the names the client compares are ASCII; other
  characters are left as they are).
\<close>

definition upper_char :: "char \<Rightarrow> char" where
  "upper_char c =
     (case map_of (zip ''abcdefghijklmnopqrstuvwxyz'' ''ABCDEFGHIJKLMNOPQRSTUVWXYZ'') c of
        Some u \<Rightarrow> u | None \<Rightarrow> c)"

definition upper :: "string \<Rightarrow> string" where
  "upper s = map upper_char s"

text \<open>
  \<^verbatim>\<open>int(s)\<close> on text whose characters are code points below 256, one \<open>char\<close> each:
  white space around the number is dropped (space, tab, line feed, vertical tab, form
  feed, carriage return, and the two further spaces of that range, U+0085 and U+00A0),
  one sign is allowed, then decimal digits, where a single underscore may stand between
  two digits. Anything else is a \<^verbatim>\<open>ValueError\<close> (\<open>None\<close> here); the separators
  0x1C to 0x1F are not dropped.
\<close>

definition is_space :: "char \<Rightarrow> bool" where
  "is_space c = (c \<in> set [CHR '' '', CHR 0x09, CHR 0x0A, CHR 0x0B, CHR 0x0C, CHR 0x0D,
                            CHR 0x85, CHR 0xA0])"

definition strip :: "string \<Rightarrow> string" where
  "strip s = rev (dropWhile is_space (rev (dropWhile is_space s)))"

definition digit_value :: "char \<Rightarrow> nat option" where
  "digit_value c = map_of (zip ''0123456789'' [0, 1, 2, 3, 4, 5, 6, 7, 8, 9]) c"

fun parse_digits :: "nat \<Rightarrow> string \<Rightarrow> nat option" where
  "parse_digits acc [] = Some acc"
| "parse_digits acc (c # cs) =
     (case digit_value c of
        Some d \<Rightarrow> parse_digits (10 * acc + d) cs
      | None \<Rightarrow>
          (if c = CHR ''_'' then
             (case cs of
                [] \<Rightarrow> None
              | c' # cs' \<Rightarrow>
                  (case digit_value c' of
                     Some d \<Rightarrow> parse_digits (10 * acc + d) cs'
                   | None \<Rightarrow> None))
           else None))"

definition parse_nat :: "string \<Rightarrow> nat option" where
  "parse_nat s =
     (case s of
        [] \<Rightarrow> None
      | c # cs \<Rightarrow> (case digit_value c of Some d \<Rightarrow> parse_digits d cs | None \<Rightarrow> None))"

definition parse_int :: "string \<Rightarrow> int option" where
  "parse_int s =
     (case strip s of
        [] \<Rightarrow> None
      | c # cs \<Rightarrow>
          if c = CHR ''-'' then map_option (\<lambda>n. - int n) (parse_nat cs)
          else if c = CHR ''+'' then map_option int (parse_nat cs)
          else map_option int (parse_nat (c # cs)))"


section \<open>Errors, the transport and the client\<close>

text \<open>
  Every exception the client can meet is a value. \<open>SocketError\<close> is \<^verbatim>\<open>socket.error\<close>,
  the only kind its handlers catch; \<open>UnboundLocalError\<close> is the \<^verbatim>\<open>NameError\<close> Python
  raises when a local name is read before it was bound; \<open>Exception\<close> is
  \<^verbatim>\<open>raise Exception(msg)\<close>.
\<close>

datatype py_error =
    Exception string
  | SocketError
  | AttributeError
  | UnicodeDecodeError
  | ValueError
  | KeyError
  | IndexError
  | UnboundLocalError

text \<open>
  The network is the environment: \<open>net i\<close> says what happens to the \<open>i\<close>-th socket
  the client asks for. \<^verbatim>\<open>socket.socket\<close> fails, or \<^verbatim>\<open>connect\<close> fails, or
  \<^verbatim>\<open>send\<close> fails, or \<^verbatim>\<open>recv\<close> fails, or the bytes received are not UTF-8, or
  the robot's reply arrives as text.
\<close>

datatype outcome = CreateFails | ConnectFails | SendFails | RecvFails | Undecodable | Reply string

type_synonym transport = "nat \<Rightarrow> outcome"

text \<open>
  What the client does to its sockets, in order: \<open>Opened i\<close> when \<^verbatim>\<open>socket.socket\<close>
  returned socket \<open>i\<close>, \<open>Send i c\<close> when \<^verbatim>\<open>send\<close> was called on it with the text
  \<open>c\<close>, \<open>Closed i\<close> when \<^verbatim>\<open>close\<close> was called on it.
\<close>

datatype event = Opened nat | Send nat string | Closed nat

text \<open>
  The fields of \<^verbatim>\<open>PF400\<close> that the operations read or write, with the number of
  sockets asked for so far and the trace of socket calls. Calls of the logger and of
  \<^verbatim>\<open>time.sleep\<close> change none of them and are left out.
\<close>

record client =
  motion_profile :: "(string \<times> pynum) list list"
  location_dictionary :: "string \<Rightarrow> pynum list option"
  conns :: nat
  trace :: "event list"

type_synonym 'a action = "client \<Rightarrow> (py_error + 'a) \<times> client"

definition and_then :: "'a action \<Rightarrow> ('a \<Rightarrow> 'b action) \<Rightarrow> 'b action" where
  "and_then m f s = (case m s of (Inl e, s1) \<Rightarrow> (Inl e, s1) | (Inr v, s1) \<Rightarrow> f v s1)"

definition pure_then :: "py_error + 'a \<Rightarrow> ('a \<Rightarrow> py_error + 'b) \<Rightarrow> py_error + 'b" where
  "pure_then r f = (case r of Inl e \<Rightarrow> Inl e | Inr v \<Rightarrow> f v)"

definition emit :: "event \<Rightarrow> client \<Rightarrow> client" where
  "emit ev s = s\<lparr>trace := trace s @ [ev]\<rparr>"

definition sent_commands :: "event list \<Rightarrow> string list" where
  "sent_commands tr = concat (map (\<lambda>ev. case ev of Send i c \<Rightarrow> [c] | _ \<Rightarrow> []) tr)"

text \<open>
  \<^verbatim>\<open>connect_robot\<close>: a failure of \<^verbatim>\<open>socket.socket\<close> is caught and logged and the
  function falls off its end, returning \<^verbatim>\<open>None\<close>; \<^verbatim>\<open>connect\<close> is called in the
  \<^verbatim>\<open>else\<close> branch, outside the handler, so its failure reaches the caller.
\<close>

definition connect_robot :: "transport \<Rightarrow> nat option action" where
  "connect_robot net s =
     (let i = conns s; s1 = s\<lparr>conns := Suc i\<rparr> in
      case net i of
        CreateFails \<Rightarrow> (Inr None, s1)
      | ConnectFails \<Rightarrow> (Inl SocketError, emit (Opened i) s1)
      | _ \<Rightarrow> (Inr (Some i), emit (Opened i) s1))"

definition disconnect_robot :: "nat option \<Rightarrow> unit action" where
  "disconnect_robot PF400 s =
     (case PF400 of
        None \<Rightarrow> (Inl AttributeError, s)
      | Some i \<Rightarrow> (Inr (), emit (Closed i) s))"

text \<open>
  The two lines every operation has inside its \<^verbatim>\<open>try\<close>:
  \<^verbatim>\<open>PF400.send(bytes(command.encode('ascii')))\<close> and
  \<^verbatim>\<open>PF400.recv(4096).decode("utf-8")\<close>. On \<^verbatim>\<open>None\<close> the attribute \<^verbatim>\<open>send\<close>
  does not exist. A socket \<open>i\<close> that \<^verbatim>\<open>connect_robot\<close> returned has an outcome
  other than \<open>CreateFails\<close> and \<open>ConnectFails\<close>, so the last case stands for a
  failed \<^verbatim>\<open>send\<close> or \<^verbatim>\<open>recv\<close>.
\<close>

definition send_recv :: "transport \<Rightarrow> nat option \<Rightarrow> string \<Rightarrow> string action" where
  "send_recv net PF400 command s =
     (case PF400 of
        None \<Rightarrow> (Inl AttributeError, s)
      | Some i \<Rightarrow>
          (case net i of
             Reply r \<Rightarrow> (Inr r, emit (Send i command) s)
           | Undecodable \<Rightarrow> (Inl UnicodeDecodeError, emit (Send i command) s)
           | _ \<Rightarrow> (Inl SocketError, emit (Send i command) s)))"

text \<open>
  \<^verbatim>\<open>send_command\<close> is not embedded, nor are \<^verbatim>\<open>enable_power\<close>,
  \<^verbatim>\<open>attach_robot\<close>, \<^verbatim>\<open>home_robot\<close> and \<^verbatim>\<open>initialize_robot\<close>, which call
  it: in this revision its body is two drafts run together, a \<^verbatim>\<open>try\<close> with no
  handler followed by a block that reads \<^verbatim>\<open>log_msg\<close>, \<^verbatim>\<open>cmd\<close> and
  \<^verbatim>\<open>PF400\<close>, names the function never binds. Every other operation writes its own
  socket handling out, as follows.
\<close>

text \<open>
  The block \<^verbatim>\<open>try: send; recv  except socket.error: log  else: disconnect_robot\<close>
  that \<^verbatim>\<open>set_profile\<close>, \<^verbatim>\<open>check_robot_heartbeat\<close>, \<^verbatim>\<open>stop_robot\<close>, the pick and
  drop routines, \<^verbatim>\<open>move_single\<close> and \<^verbatim>\<open>set_speed\<close> each write out. A
  \<^verbatim>\<open>socket.error\<close> is logged and swallowed; any other exception leaves the block; the
  socket is closed in the \<^verbatim>\<open>else\<close> branch only.
\<close>

definition try_send :: "transport \<Rightarrow> nat option \<Rightarrow> string \<Rightarrow> unit action" where
  "try_send net PF400 command s =
     (case send_recv net PF400 command s of
        (Inr out_msg, s1) \<Rightarrow> disconnect_robot PF400 s1
      | (Inl e, s1) \<Rightarrow> if e = SocketError then (Inr (), s1) else (Inl e, s1))"

section \<open>Profiles\<close>

fun profile_command :: "string \<Rightarrow> (string \<times> pynum) list \<Rightarrow> string" where
  "profile_command command [] = command @ ''\<newline>''"
| "profile_command command ((key, v) # items) = profile_command (command @ '' '' @ str_num v) items"

definition item :: "'a list \<Rightarrow> nat \<Rightarrow> py_error + 'a" where
  "item xs i = (if i < length xs then Inr (xs ! i) else Inl IndexError)"

text \<open>
  \<^verbatim>\<open>set_profile\<close>: the dictionary is an association list in insertion order. The
  socket is asked for before the command is built, as in the source.
\<close>

definition set_default_profile :: "transport \<Rightarrow> string \<Rightarrow> nat \<Rightarrow> unit action" where
  "set_default_profile net command n s =
     and_then (connect_robot net)
       (\<lambda>PF400 s1. case item (motion_profile s1) n of
            Inl e \<Rightarrow> (Inl e, s1)
          | Inr d \<Rightarrow> try_send net PF400 (profile_command command d) s1) s"

definition set_profile :: "transport \<Rightarrow> (string \<times> pynum) list \<Rightarrow> unit action" where
  "set_profile net profile_dict s =
     (if length profile_dict = 1 then
        and_then (set_default_profile net ''Profile 1'' 0)
          (\<lambda>_. set_default_profile net ''Profile 2'' 1) s
      else if length profile_dict = 8 then
        and_then (connect_robot net)
          (\<lambda>PF400. try_send net PF400 (profile_command ''Profile 3'' profile_dict)) s
      else
        (Inl (Exception (''Motion profile takes 8 arguments, '' @ str_nat (length profile_dict)
                          @ '' where given'')), s))"

definition check_robot_heartbeat :: "transport \<Rightarrow> unit action" where
  "check_robot_heartbeat net s =
     and_then (connect_robot net) (\<lambda>PF400. try_send net PF400 ''nop\<newline>'') s"

definition stop_robot :: "transport \<Rightarrow> unit action" where
  "stop_robot net s =
     and_then (connect_robot net) (\<lambda>PF400. try_send net PF400 ''halt\<newline>'') s"

definition set_speed :: "transport \<Rightarrow> pynum \<Rightarrow> unit action" where
  "set_speed net speed s =
     and_then (connect_robot net)
       (\<lambda>PF400. try_send net PF400 (''mspeed'' @ str_num speed @ ''\<newline>'')) s"

section \<open>Move commands\<close>

definition grip_value :: pynum where
  "grip_value = PyFloat ''120.0''"

definition release_value :: pynum where
  "release_value = PyFloat ''127.0''"

text \<open>The loop of \<^verbatim>\<open>set_move_command\<close> over \<^verbatim>\<open>enumerate\<close> of the location's list.\<close>

fun move_args :: "bool \<Rightarrow> bool \<Rightarrow> (nat \<times> pynum) list \<Rightarrow> string \<Rightarrow> string" where
  "move_args grab release [] robot_command = robot_command"
| "move_args grab release ((count, location) # rest) robot_command =
     move_args grab release rest
       (if grab \<and> count = 4 then robot_command @ '' '' @ str_num grip_value
        else if release \<and> count = 4 then robot_command @ '' '' @ str_num release_value
        else robot_command @ '' '' @ str_num location)"

definition set_move_command :: "client \<Rightarrow> string \<Rightarrow> int \<Rightarrow> bool \<Rightarrow> bool \<Rightarrow> py_error + string" where
  "set_move_command s robot_location profile grab release =
     pure_then
       (if profile = 1 then Inr ''MoveJ 1''
        else if profile = 2 then Inr ''MoveJ 2''
        else if profile = 3 then Inr ''MoveJ 3''
        else Inl (Exception ''Please enter a valid motion profiile! 1 for slower movement, 2 for faster movement profile, 3 for modified profile''))
       (\<lambda>robot_command.
          case location_dictionary s robot_location of
            None \<Rightarrow> Inl KeyError
          | Some joints \<Rightarrow>
              Inr (move_args grab release (List.enumerate 0 joints) robot_command @ ''\<newline>''))"


section \<open>Routines\<close>

text \<open>
  The \<^verbatim>\<open>for\<close> loop that ends every pick and drop routine: each command gets a socket
  of its own and the same \<^verbatim>\<open>try\<close> block.
\<close>

fun move_loop :: "transport \<Rightarrow> string list \<Rightarrow> unit action" where
  "move_loop net [] s = (Inr (), s)"
| "move_loop net (command # rest) s =
     (case connect_robot net s of
        (Inl e, s1) \<Rightarrow> (Inl e, s1)
      | (Inr PF400, s1) \<Rightarrow>
          (case try_send net PF400 command s1 of
             (Inl e, s2) \<Rightarrow> (Inl e, s2)
           | (Inr u, s2) \<Rightarrow> move_loop net rest s2))"

definition speeds :: "int \<Rightarrow> int \<times> int" where
  "speeds profile = (if profile = 3 then (3, 3) else (1, 2))"

definition ot2 :: "int \<Rightarrow> string \<Rightarrow> string" where
  "ot2 ot2_ID suffix = ''OT2_'' @ str_int ot2_ID @ suffix"

text \<open>
  Modelled from the spec: the tail of the list \<^verbatim>\<open>pick_up_commands\<close>. The source
  writes it as \<^verbatim>\<open>[move_front, above_plate] ......\<close>, with the four elements after
  \<^verbatim>\<open>above_plate\<close> left out. The spec documents the sequence front, above, approach,
  pick (grip), above (grip), front (grip): the six commands \<^verbatim>\<open>pick_plate_ot2\<close> builds
  just before, in the order it builds them, as \<^verbatim>\<open>drop_plate_ot2\<close> and
  \<^verbatim>\<open>pick_plate_from_rack\<close> list theirs.
\<close>

definition pick_plate_ot2 :: "transport \<Rightarrow> int \<Rightarrow> int \<Rightarrow> unit action" where
  "pick_plate_ot2 net ot2_ID profile s =
     (let (slow, fast) = speeds profile in
      case
        pure_then (set_move_command s (ot2 ot2_ID ''_front'') fast False False) (\<lambda>move_front.
        pure_then (set_move_command s (ot2 ot2_ID ''_above_plate'') fast False False) (\<lambda>above_plate.
        pure_then (set_move_command s (ot2 ot2_ID ''_pick_plate'') fast False False) (\<lambda>approach_plate.
        pure_then (set_move_command s (ot2 ot2_ID ''_pick_plate'') slow True False) (\<lambda>pick_up_plate.
        pure_then (set_move_command s (ot2 ot2_ID ''_above_plate'') slow True False) (\<lambda>above_with_plate.
        pure_then (set_move_command s (ot2 ot2_ID ''_front'') slow True False) (\<lambda>front_with_plate.
        Inr [move_front, above_plate, approach_plate, pick_up_plate, above_with_plate,
             front_with_plate]))))))
      of
        Inl e \<Rightarrow> (Inl e, s)
      | Inr pick_up_commands \<Rightarrow> move_loop net pick_up_commands s)"

definition drop_plate_ot2 :: "transport \<Rightarrow> int \<Rightarrow> int \<Rightarrow> unit action" where
  "drop_plate_ot2 net ot2_ID profile s =
     (let (slow, fast) = speeds profile in
      case
        pure_then (set_move_command s (ot2 ot2_ID ''_front'') slow True False) (\<lambda>front_with_plate.
        pure_then (set_move_command s (ot2 ot2_ID ''_above_plate'') slow True False) (\<lambda>above_with_plate.
        pure_then (set_move_command s (ot2 ot2_ID ''_pick_plate'') slow True False) (\<lambda>approach_with_plate.
        pure_then (set_move_command s (ot2 ot2_ID ''_pick_plate'') slow False True) (\<lambda>drop_plate.
        pure_then (set_move_command s (ot2 ot2_ID ''_above_plate'') fast False False) (\<lambda>above_plate.
        pure_then (set_move_command s (ot2 ot2_ID ''_front'') fast False False) (\<lambda>front_plate.
        Inr [front_with_plate, above_with_plate, approach_with_plate, drop_plate,
             above_plate, front_plate]))))))
      of
        Inl e \<Rightarrow> (Inl e, s)
      | Inr drop_commands \<Rightarrow> move_loop net drop_commands s)"

definition pick_plate_from_rack :: "transport \<Rightarrow> int \<Rightarrow> int \<Rightarrow> unit action" where
  "pick_plate_from_rack net ot2_ID profile s =
     (let (slow, fast) = speeds profile in
      case
        pure_then (set_move_command s (ot2 ot2_ID ''_approach_plate_rack'') fast False False) (\<lambda>approach_plate_rack.
        pure_then (set_move_command s (ot2 ot2_ID ''_front_plate_rack'') slow False False) (\<lambda>front_rack.
        pure_then (set_move_command s (ot2 ot2_ID ''_plate_rack'') slow False False) (\<lambda>plate_rack.
        pure_then (set_move_command s (ot2 ot2_ID ''_plate_rack'') slow True False) (\<lambda>pick_plate.
        pure_then (set_move_command s (ot2 ot2_ID ''_front_plate_rack'') slow True False) (\<lambda>front_with_plate.
        pure_then (set_move_command s (ot2 ot2_ID ''_approach_plate_rack'') slow True False) (\<lambda>approach_rack_back.
        Inr [approach_plate_rack, front_rack, plate_rack, pick_plate, front_with_plate,
             approach_rack_back]))))))
      of
        Inl e \<Rightarrow> (Inl e, s)
      | Inr drop_commands \<Rightarrow> move_loop net drop_commands s)"

definition drop_complete_plate :: "transport \<Rightarrow> int \<Rightarrow> unit action" where
  "drop_complete_plate net profile s =
     (let (slow, fast) = speeds profile in
      case
        pure_then (set_move_command s ''Completed_plate_above'' slow True False) (\<lambda>completed_plate_above.
        pure_then (set_move_command s ''Completed_plate'' slow True False) (\<lambda>drop_with_plate.
        pure_then (set_move_command s ''Completed_plate'' slow False True) (\<lambda>drop_plate.
        pure_then (set_move_command s ''Completed_plate_above'' slow False False) (\<lambda>completed_plate.
        Inr [completed_plate_above, drop_with_plate, drop_plate, completed_plate]))))
      of
        Inl e \<Rightarrow> (Inl e, s)
      | Inr drop_commands \<Rightarrow> move_loop net drop_commands s)"

text \<open>\<^verbatim>\<open>move_single\<close> asks for the socket first and builds the command after.\<close>

definition move_single :: "transport \<Rightarrow> string \<Rightarrow> int \<Rightarrow> bool \<Rightarrow> bool \<Rightarrow> unit action" where
  "move_single net target_location profile grap release s =
     and_then (connect_robot net)
       (\<lambda>PF400 s1. case set_move_command s1 target_location profile grap release of
            Inl e \<Rightarrow> (Inl e, s1)
          | Inr command \<Rightarrow> try_send net PF400 command s1) s"

text \<open>
  \<^verbatim>\<open>program_robot_target\<close>: an \<^verbatim>\<open>if\<close>/\<^verbatim>\<open>elif\<close> on the job name with no
  \<^verbatim>\<open>else\<close>. The first branch reads \<^verbatim>\<open>robot_ID_list[0]\<close> and
  \<^verbatim>\<open>robot_ID_list[1]\<close> for its log line before it moves; the list is not changed
  afterwards, so the later reads give the same two values.
\<close>

definition program_robot_target :: "transport \<Rightarrow> string \<Rightarrow> int list \<Rightarrow> unit action" where
  "program_robot_target net job robot_ID_list s =
     (if upper job = ''TRANSFER'' then
        (case pure_then (item robot_ID_list 0) (\<lambda>a. pure_then (item robot_ID_list 1) (\<lambda>b. Inr (a, b))) of
           Inl e \<Rightarrow> (Inl e, s)
         | Inr (a, b) \<Rightarrow>
             and_then (move_single net ''HomeALL'' 2 False False) (\<lambda>_.
             and_then (pick_plate_ot2 net a 0) (\<lambda>_.
             drop_plate_ot2 net b 0)) s)
      else if upper job = ''FULL_TRANSFER'' then
        and_then (move_single net ''HomeALL'' 2 False False) (\<lambda>_.
        and_then (pick_plate_from_rack net 1 0) (\<lambda>_.
        and_then (drop_plate_ot2 net 1 0) (\<lambda>_.
        and_then (pick_plate_ot2 net 1 0) (\<lambda>_.
        and_then (drop_plate_ot2 net 2 0) (\<lambda>_.
        and_then (pick_plate_ot2 net 2 0) (\<lambda>_.
        and_then (drop_plate_ot2 net 3 0) (\<lambda>_.
        and_then (pick_plate_ot2 net 3 0) (\<lambda>_.
        drop_complete_plate net 0)))))))) s
      else (Inr (), s))"


section \<open>Locating and teaching\<close>

text \<open>
  \<^verbatim>\<open>locate_robot\<close>: the parse \<^verbatim>\<open>list(map(int, location.split(" ")))\<close> stands inside
  the \<^verbatim>\<open>try\<close>, whose handler catches \<^verbatim>\<open>socket.error\<close> only. After the handler the
  function goes on to \<^verbatim>\<open>return coordinate_list\<close>, a name that was never bound.
\<close>

definition locate_robot :: "transport \<Rightarrow> int list action" where
  "locate_robot net s =
     and_then (connect_robot net)
       (\<lambda>PF400 s1.
          case send_recv net PF400 ''wherej\<newline>'' s1 of
            (Inl e, s2) \<Rightarrow> if e = SocketError then (Inl UnboundLocalError, s2) else (Inl e, s2)
          | (Inr location, s2) \<Rightarrow>
              (case those (map parse_int (split_on CHR '' '' location)) of
                 None \<Rightarrow> (Inl ValueError, s2)
               | Some coordinate_list \<Rightarrow>
                   and_then (disconnect_robot PF400) (\<lambda>_ s3. (Inr coordinate_list, s3)) s2)) s"

text \<open>
  \<^verbatim>\<open>location.lower == "homeall"\<close> compares the bound method \<^verbatim>\<open>location.lower\<close>,
  which is not called, with a \<^verbatim>\<open>str\<close>: the comparison is false for every location.
\<close>

definition lower_method_equals :: "string \<Rightarrow> string \<Rightarrow> bool" where
  "lower_method_equals location name = False"

text \<open>
  The loop \<^verbatim>\<open>for count, loc in enumerate(d[key]): d[key][count] = current_location[count]\<close>,
  one entry at a time: an entry already written stays written when a later read of
  \<^verbatim>\<open>current_location\<close> is out of range.
\<close>

fun teach_entries :: "string \<Rightarrow> int list \<Rightarrow> (nat \<times> pynum) list \<Rightarrow> unit action" where
  "teach_entries key current_location [] s = (Inr (), s)"
| "teach_entries key current_location ((count, loc) # rest) s =
     (case location_dictionary s key of
        None \<Rightarrow> (Inl KeyError, s)
      | Some joints \<Rightarrow>
          (case item current_location count of
             Inl e \<Rightarrow> (Inl e, s)
           | Inr v \<Rightarrow>
               teach_entries key current_location rest
                 (s\<lparr>location_dictionary := (location_dictionary s)(key \<mapsto> joints[count := PyInt v])\<rparr>)))"

definition teach_key :: "string option \<Rightarrow> int list \<Rightarrow> unit action" where
  "teach_key key_name current_location s =
     (case key_name of
        None \<Rightarrow> (Inl UnboundLocalError, s)
      | Some key \<Rightarrow>
          (case location_dictionary s key of
             None \<Rightarrow> (Inl KeyError, s)
           | Some joints \<Rightarrow> teach_entries key current_location (List.enumerate 0 joints) s))"

definition station_key :: "string \<Rightarrow> int \<Rightarrow> string option" where
  "station_key location robot_id =
     (if upper location = ''FRONT'' then Some (ot2 robot_id ''_front'')
      else if upper location = ''ABOVE_PLATE'' then Some (ot2 robot_id ''_above_plate'')
      else if upper location = ''PICK_PLATE'' then Some (ot2 robot_id ''_pick_plate'')
      else if upper location = ''PLATE_RACK'' then Some (ot2 robot_id ''_plate_rack'')
      else None)"

text \<open>The body of the \<^verbatim>\<open>try\<close> in \<^verbatim>\<open>teach_location\<close>.\<close>

definition teach_body :: "string \<Rightarrow> int option \<Rightarrow> int list \<Rightarrow> unit action" where
  "teach_body location robot_id current_location s =
     (if robot_id = None \<and>
         (lower_method_equals location ''homeall'' \<or> lower_method_equals location ''homearm''
          \<or> lower_method_equals location ''mobile_robot'' \<or> lower_method_equals location ''trash'')
      then
        and_then (teach_key (Some location) current_location)
          (\<lambda>_. teach_key None current_location) s
      else
        (case robot_id of
           Some rid \<Rightarrow> teach_key (station_key location rid) current_location s
         | None \<Rightarrow>
             (Inl (Exception ''Please enter a valid location name!!! Format: location: str, robot_id:int = None ''), s)))"

text \<open>
  \<^verbatim>\<open>teach_location\<close>: \<^verbatim>\<open>locate_robot\<close> is called before the \<^verbatim>\<open>try\<close>; the
  handler \<^verbatim>\<open>except Exception\<close> catches everything the body raises and logs it.
\<close>

definition teach_location :: "transport \<Rightarrow> string \<Rightarrow> int option \<Rightarrow> unit action" where
  "teach_location net location robot_id s =
     and_then (locate_robot net)
       (\<lambda>current_location s1.
          case teach_body location robot_id current_location s1 of
            (r, s2) \<Rightarrow> (Inr (), s2)) s"

section \<open>The operations that issue commands\<close>

datatype operation =
    SetProfile "(string \<times> pynum) list"
  | CheckRobotHeartbeat
  | StopRobot
  | PickPlateOt2 int int
  | DropPlateOt2 int int
  | PickPlateFromRack int int
  | DropCompletePlate int
  | MoveSingle string int bool bool
  | ProgramRobotTarget string "int list"
  | SetSpeed pynum
  | LocateRobot
  | TeachLocation string "int option"

fun run :: "transport \<Rightarrow> operation \<Rightarrow> unit action" where
  "run net (SetProfile profile_dict) s = set_profile net profile_dict s"
| "run net CheckRobotHeartbeat s = check_robot_heartbeat net s"
| "run net StopRobot s = stop_robot net s"
| "run net (PickPlateOt2 ot2_ID profile) s = pick_plate_ot2 net ot2_ID profile s"
| "run net (DropPlateOt2 ot2_ID profile) s = drop_plate_ot2 net ot2_ID profile s"
| "run net (PickPlateFromRack ot2_ID profile) s = pick_plate_from_rack net ot2_ID profile s"
| "run net (DropCompletePlate profile) s = drop_complete_plate net profile s"
| "run net (MoveSingle target_location profile grap release) s =
     move_single net target_location profile grap release s"
| "run net (ProgramRobotTarget job robot_ID_list) s = program_robot_target net job robot_ID_list s"
| "run net (SetSpeed speed) s = set_speed net speed s"
| "run net LocateRobot s =
     (case locate_robot net s of (Inl e, s1) \<Rightarrow> (Inl e, s1) | (Inr coordinate_list, s1) \<Rightarrow> (Inr (), s1))"
| "run net (TeachLocation location robot_id) s = teach_location net location robot_id s"


section \<open>An example configuration\<close>

text \<open>
  A small configuration in the shape of \<^verbatim>\<open>robot_data.json\<close>: two default motion
  profiles and a location table with six joint values per location.
\<close>

definition example_joints :: "pynum list" where
  "example_joints = [PyInt 1, PyFloat ''2.0'', PyInt 3, PyInt 4, PyInt 5, PyInt 6]"

definition slow_profile :: "(string \<times> pynum) list" where
  "slow_profile =
     [(''Speed'', PyInt 30), (''Speed2'', PyInt 0), (''Acceleration'', PyInt 100),
      (''Deceleration'', PyInt 100), (''AccelRamp'', PyFloat ''0.1''),
      (''DecelRamp'', PyFloat ''0.1''), (''InRange'', PyInt 10), (''Straight'', PyInt 0)]"

definition fast_profile :: "(string \<times> pynum) list" where
  "fast_profile =
     [(''Speed'', PyInt 60), (''Speed2'', PyInt 0), (''Acceleration'', PyInt 100),
      (''Deceleration'', PyInt 100), (''AccelRamp'', PyFloat ''0.1''),
      (''DecelRamp'', PyFloat ''0.1''), (''InRange'', PyInt 10), (''Straight'', PyInt 0)]"

definition example_client :: client where
  "example_client =
     \<lparr>motion_profile = [slow_profile, fast_profile],
      location_dictionary =
        [''HomeALL'' \<mapsto> example_joints,
         ''OT2_1_front'' \<mapsto> [PyInt 11, PyInt 12, PyInt 13, PyInt 14, PyInt 15, PyInt 16],
         ''OT2_1_above_plate'' \<mapsto> [PyInt 21, PyInt 22, PyInt 23, PyInt 24, PyInt 25, PyInt 26],
         ''OT2_1_pick_plate'' \<mapsto> [PyInt 31, PyInt 32, PyInt 33, PyInt 34, PyInt 35, PyInt 36]],
      conns = 0, trace = []\<rparr>"

text \<open>The robot that answers every command with \<^verbatim>\<open>0\<close>.\<close>

definition robot_ok :: transport where
  "robot_ok i = Reply ''0''"

text \<open>
  A network on which every \<^verbatim>\<open>send\<close> fails, one on which every \<^verbatim>\<open>connect\<close> fails,
  and a robot that reports the position \<^verbatim>\<open>5 6 7 8 9 10\<close>.
\<close>

definition send_fails :: transport where
  "send_fails i = SendFails"

definition connect_fails :: transport where
  "connect_fails i = ConnectFails"

definition robot_reports :: transport where
  "robot_reports i = Reply ''5 6 7 8 9 10''"

text \<open>
  A robot whose reply holds two spaces in a row, so that one piece of it is empty, and
  one whose reply is not UTF-8.
\<close>

definition robot_garbled :: transport where
  "robot_garbled i = Reply ''5  6''"

definition reply_undecodable :: transport where
  "reply_undecodable i = Undecodable"

text \<open>
  Outcomes by what the client makes of them: the robot answered; the transport failed
  (\<^verbatim>\<open>socket.socket\<close>, \<^verbatim>\<open>connect\<close>, \<^verbatim>\<open>send\<close> or \<^verbatim>\<open>recv\<close>); the exception is
  one that no \<^verbatim>\<open>except socket.error\<close> block of an operation catches.
\<close>

fun answered :: "outcome \<Rightarrow> bool" where
  "answered (Reply r) = True"
| "answered x = False"

fun failure :: "outcome \<Rightarrow> bool" where
  "failure (Reply r) = False"
| "failure Undecodable = False"
| "failure x = True"

fun escapes :: "outcome \<Rightarrow> bool" where
  "escapes CreateFails = True"
| "escapes ConnectFails = True"
| "escapes Undecodable = True"
| "escapes x = False"

text \<open>
  The transport failed during an operation when one of the sockets it asked for, those
  numbered from \<open>conns\<close> before the call up to \<open>conns\<close> after it, met a failure.
\<close>

definition transport_failed :: "transport \<Rightarrow> client \<Rightarrow> client \<Rightarrow> bool" where
  "transport_failed net s s' = list_ex failure (map net [conns s ..< conns s'])"

text \<open>
  Relations between the client before and after an action: the location table is the same;
  every \<^verbatim>\<open>close\<close> the action made is on a socket whose send and receive succeeded.
  An action is \<open>quiet\<close> when it never ends in a \<^verbatim>\<open>socket.error\<close>.
\<close>

definition steps :: "(client \<Rightarrow> client \<Rightarrow> bool) \<Rightarrow> 'a action \<Rightarrow> bool" where
  "steps R m = (\<forall>s. R s (snd (m s)))"

definition same_table :: "client \<Rightarrow> client \<Rightarrow> bool" where
  "same_table s s' = (location_dictionary s' = location_dictionary s)"

definition closed_answered :: "transport \<Rightarrow> client \<Rightarrow> client \<Rightarrow> bool" where
  "closed_answered net s s' =
     list_all (\<lambda>ev. case ev of Closed i \<Rightarrow> Closed i \<in> set (trace s) \<or> answered (net i) | _ \<Rightarrow> True)
       (trace s')"

text \<open>
  A command was sent on socket \<open>i\<close>; and the relation that every socket on which a
  command was sent during the action, and on which the robot answered, was closed.
\<close>

definition sent_on :: "nat \<Rightarrow> event list \<Rightarrow> bool" where
  "sent_on i tr = list_ex (\<lambda>ev. case ev of Send j c \<Rightarrow> j = i | _ \<Rightarrow> False) tr"

definition sent_closed :: "transport \<Rightarrow> client \<Rightarrow> client \<Rightarrow> bool" where
  "sent_closed net s s' =
     (set (trace s) \<subseteq> set (trace s')
      \<and> (\<forall>i. sent_on i (trace s') \<and> answered (net i) \<longrightarrow>
             sent_on i (trace s) \<or> Closed i \<in> set (trace s')))"

definition compatible :: "transport \<Rightarrow> (client \<Rightarrow> client \<Rightarrow> bool) \<Rightarrow> bool" where
  "compatible net R =
     ((\<forall>s. R s s) \<and> (\<forall>a b c. R a b \<longrightarrow> R b c \<longrightarrow> R a c)
      \<and> steps R (connect_robot net) \<and> (\<forall>PF400 command. steps R (try_send net PF400 command)))"

definition quiet :: "'a action \<Rightarrow> bool" where
  "quiet m = (\<forall>s. fst (m s) \<noteq> Inl SocketError)"

section \<open>Properties of the move command\<close>

lemma str_int_small: "str_int 1 = ''1''" "str_int 2 = ''2''" "str_int 3 = ''3''"
  by (simp_all add: str_int_def str_nat.simps digit_char_def)

lemma move_args_from_5:
  "5 \<le> k \<Longrightarrow> move_args grab release (List.enumerate k joints) cmd
     = cmd @ concat (map (\<lambda>a. '' '' @ a) (map str_num joints))"
  by (induction joints arbitrary: k cmd) auto

lemma move_args_general:
  "k \<le> 4 \<Longrightarrow> move_args grab release (List.enumerate k joints) cmd
     = cmd @ concat (map (\<lambda>a. '' '' @ a)
         (if grab then (map str_num joints)[4 - k := str_num grip_value]
          else if release then (map str_num joints)[4 - k := str_num release_value]
          else map str_num joints))"
proof (induction joints arbitrary: k cmd)
  case Nil
  then show ?case by simp
next
  case (Cons j joints)
  show ?case
  proof (cases "k = 4")
    case True
    then show ?thesis by (simp add: move_args_from_5)
  next
    case False
    with Cons.prems have k: "Suc k \<le> 4" by simp
    then obtain m where m: "4 - k = Suc m" "4 - Suc k = m"
      by (metis Suc_diff_le diff_Suc_Suc)
    show ?thesis using Cons.IH[OF k] False m by simp
  qed
qed

lemma digit_char_plain: "d < 10 \<Longrightarrow> digit_char d \<noteq> CHR '' ''"
proof -
  assume "d < 10"
  then have "d \<in> {0, 1, 2, 3, 4, 5, 6, 7, 8, 9}" by auto
  then show ?thesis by (auto simp: digit_char_def)
qed

lemma str_nat_plain: "CHR '' '' \<notin> set (str_nat n)"
proof (induction n rule: str_nat.induct)
  case (1 n)
  show ?case
  proof (cases "n < 10")
    case True
    then show ?thesis using digit_char_plain[of n] by (subst str_nat.simps) auto
  next
    case False
    have "n mod 10 < 10" by simp
    then have "digit_char (n mod 10) \<noteq> CHR '' ''" by (rule digit_char_plain)
    then show ?thesis using False 1 by (subst str_nat.simps) auto
  qed
qed

lemma str_int_plain: "CHR '' '' \<notin> set (str_int i)"
  by (simp add: str_int_def str_nat_plain)

lemma str_num_plain:
  "(\<forall>t. PyFloat t \<in> set joints \<longrightarrow> CHR '' '' \<notin> set t) \<Longrightarrow>
     \<forall>j \<in> set joints. CHR '' '' \<notin> set (str_num j)"
proof
  fix j assume h: "\<forall>t. PyFloat t \<in> set joints \<longrightarrow> CHR '' '' \<notin> set t" and j: "j \<in> set joints"
  show "CHR '' '' \<notin> set (str_num j)"
    using h j by (cases j) (auto simp: str_int_plain)
qed

lemma split_on_plain:
  "c \<notin> set p \<Longrightarrow> split_on c p = [p]"
  by (induction p) auto

lemma split_on_prefix:
  "c \<notin> set p \<Longrightarrow> split_on c (p @ c # rest) = p # split_on c rest"
  by (induction p) auto

lemma split_on_args:
  "c \<notin> set p \<Longrightarrow> \<forall>a\<in>set args. c \<notin> set a \<Longrightarrow>
     split_on c (p @ concat (map (\<lambda>a. c # a) args)) = p # args"
proof (induction args arbitrary: p)
  case Nil
  then show ?case by (simp add: split_on_plain)
next
  case (Cons a args)
  then show ?case by (simp add: split_on_prefix)
qed

text \<open>
  C1. For a location of the table and a profile 1, 2 or 3, \<^verbatim>\<open>set_move_command\<close> returns
  the line \<^verbatim>\<open>MoveJ <profile>\<close> followed by one argument per joint value of the location
  and a newline. The arguments are the printed joint values, except that with the grab flag
  (or else the release flag) the argument at index 4 is \<^verbatim>\<open>120.0\<close> (\<^verbatim>\<open>127.0\<close>). A printed
  integer holds no space; when no printed float of the location does either, cutting the
  line at its spaces gives \<^verbatim>\<open>MoveJ\<close>, the profile and exactly these arguments.
\<close>

theorem set_move_command_arguments:
  assumes loc: "location_dictionary s robot_location = Some joints"
    and prof: "profile = 1 \<or> profile = 2 \<or> profile = 3"
  shows "let args = (if grab then (map str_num joints)[4 := ''120.0'']
                     else if release then (map str_num joints)[4 := ''127.0'']
                     else map str_num joints);
             line = ''MoveJ '' @ str_int profile @ concat (map (\<lambda>a. '' '' @ a) args)
         in set_move_command s robot_location profile grab release = Inr (line @ ''\<newline>'')
            \<and> length args = length joints
            \<and> (\<forall>i < length joints. i \<noteq> 4 \<longrightarrow> args ! i = str_num (joints ! i))
            \<and> (4 < length joints \<and> (grab \<or> release) \<longrightarrow>
                  args ! 4 = (if grab then ''120.0'' else ''127.0''))
            \<and> ((\<forall>t. PyFloat t \<in> set joints \<longrightarrow> CHR '' '' \<notin> set t) \<longrightarrow>
                  split_on CHR '' '' line = ''MoveJ'' # str_int profile # args)"
proof -
  define args where "args = (if grab then (map str_num joints)[4 := ''120.0'']
                     else if release then (map str_num joints)[4 := ''127.0'']
                     else map str_num joints)"
  define line where "line = ''MoveJ '' @ str_int profile @ concat (map (\<lambda>a. '' '' @ a) args)"
  have cmd: "set_move_command s robot_location profile grab release = Inr (line @ ''\<newline>'')"
    using prof loc move_args_general[of 0 grab release joints]
    by (auto simp: set_move_command_def pure_then_def line_def args_def str_int_small
        grip_value_def release_value_def)
  have len: "length args = length joints"
    by (simp add: args_def)
  have others: "\<forall>i < length joints. i \<noteq> 4 \<longrightarrow> args ! i = str_num (joints ! i)"
    by (simp add: args_def)
  have fifth: "4 < length joints \<and> (grab \<or> release) \<longrightarrow> args ! 4 = (if grab then ''120.0'' else ''127.0'')"
    by (simp add: args_def)
  have toks: "split_on CHR '' '' line = ''MoveJ'' # str_int profile # args"
    if floats: "\<forall>t. PyFloat t \<in> set joints \<longrightarrow> CHR '' '' \<notin> set t"
  proof -
    have plain: "\<forall>j \<in> set joints. CHR '' '' \<notin> set (str_num j)"
      using floats by (rule str_num_plain)
    have a: "\<forall>a \<in> set args. CHR '' '' \<notin> set a"
    proof
      fix a assume "a \<in> set args"
      then have "a \<in> set (map str_num joints) \<or> a = ''120.0'' \<or> a = ''127.0''"
        using set_update_subset_insert[of "map str_num joints" 4]
        by (auto simp: args_def split: if_splits)
      with plain show "CHR '' '' \<notin> set a" by auto
    qed
    have p: "CHR '' '' \<notin> set (str_int profile)"
      using prof by (auto simp: str_int_small)
    have "line = ''MoveJ'' @ concat (map (\<lambda>a. CHR '' '' # a) (str_int profile # args))"
      by (simp add: line_def)
    moreover have "\<forall>a \<in> set (str_int profile # args). CHR '' '' \<notin> set a"
      using a p by simp
    moreover have "CHR '' '' \<notin> set ''MoveJ''" by simp
    ultimately show ?thesis
      using split_on_args[of "CHR '' ''" "''MoveJ''" "str_int profile # args"] by simp
  qed
  show ?thesis
    unfolding Let_def args_def[symmetric] line_def[symmetric]
    using cmd len others fifth toks by blast
qed

theorem set_move_command_arguments_witness:
  "location_dictionary example_client ''HomeALL'' = Some example_joints
   \<and> set_move_command example_client ''HomeALL'' 2 True False = Inr ''MoveJ 2 1 2.0 3 4 120.0 6\<newline>''
   \<and> split_on CHR '' '' ''MoveJ 2 1 2.0 3 4 120.0 6'' = [''MoveJ'', ''2'', ''1'', ''2.0'', ''3'', ''4'', ''120.0'', ''6'']"
proof -
  have loc: "location_dictionary example_client ''HomeALL'' = Some example_joints"
    by (simp add: example_client_def)
  have prof: "(2::int) = 1 \<or> (2::int) = 2 \<or> (2::int) = 3" by simp
  have plain: "\<forall>t. PyFloat t \<in> set example_joints \<longrightarrow> CHR '' '' \<notin> set t"
    by (simp add: example_joints_def)
  show ?thesis
    using set_move_command_arguments[OF loc prof, of True False] loc plain
    by (simp add: Let_def example_joints_def str_int_def str_nat.simps digit_char_def)
qed

text \<open>
  C9. With both the grab and the release flag set, the argument at index 4 is the grip value
  \<^verbatim>\<open>120.0\<close>, not the release value \<^verbatim>\<open>127.0\<close>: the command is the one the grab flag
  alone gives.
\<close>

theorem grab_takes_precedence:
  assumes loc: "location_dictionary s robot_location = Some joints"
    and prof: "profile = 1 \<or> profile = 2 \<or> profile = 3"
    and five: "4 < length joints"
  shows "let args = (map str_num joints)[4 := ''120.0'']
         in set_move_command s robot_location profile True True
              = Inr (''MoveJ '' @ str_int profile @ concat (map (\<lambda>a. '' '' @ a) args) @ ''\<newline>'')
            \<and> args ! 4 = ''120.0'' \<and> args ! 4 \<noteq> ''127.0''
            \<and> set_move_command s robot_location profile True True
                = set_move_command s robot_location profile True False"
proof -
  have "set_move_command s robot_location profile True True
          = Inr (''MoveJ '' @ str_int profile
                 @ concat (map (\<lambda>a. '' '' @ a) ((map str_num joints)[4 := ''120.0''])) @ ''\<newline>'')"
    using prof loc move_args_general[of 0 True True joints]
    by (auto simp: set_move_command_def pure_then_def str_int_small grip_value_def)
  moreover have "set_move_command s robot_location profile True False
          = Inr (''MoveJ '' @ str_int profile
                 @ concat (map (\<lambda>a. '' '' @ a) ((map str_num joints)[4 := ''120.0''])) @ ''\<newline>'')"
    using prof loc move_args_general[of 0 True False joints]
    by (auto simp: set_move_command_def pure_then_def str_int_small grip_value_def)
  moreover have "((map str_num joints)[4 := ''120.0'']) ! 4 = ''120.0''"
    using five by simp
  ultimately show ?thesis by (simp add: Let_def)
qed

theorem grab_takes_precedence_witness:
  "location_dictionary example_client ''HomeALL'' = Some example_joints
   \<and> 4 < length example_joints
   \<and> set_move_command example_client ''HomeALL'' 1 True True = Inr ''MoveJ 1 1 2.0 3 4 120.0 6\<newline>''"
proof -
  have loc: "location_dictionary example_client ''HomeALL'' = Some example_joints"
    by (simp add: example_client_def)
  have prof: "(1::int) = 1 \<or> (1::int) = 2 \<or> (1::int) = 3" by simp
  have five: "4 < length example_joints" by (simp add: example_joints_def)
  show ?thesis
    using grab_takes_precedence[OF loc prof five] loc five
    by (simp add: Let_def example_joints_def str_int_def str_nat.simps digit_char_def)
qed

section \<open>Properties of locating\<close>

text \<open>
  C8. When the robot answers the position query with \<^verbatim>\<open>5 6 7 8 9 10\<close>,
  \<^verbatim>\<open>locate_robot\<close> returns the list of integers 5, 6, 7, 8, 9, 10.
\<close>

theorem locate_robot_parses_reply:
  assumes "net (conns s) = Reply ''5 6 7 8 9 10''"
  shows "fst (locate_robot net s) = Inr [5, 6, 7, 8, 9, 10]"
  using assms
  by (simp add: locate_robot_def and_then_def connect_robot_def send_recv_def emit_def
      disconnect_robot_def Let_def parse_int_def strip_def is_space_def parse_nat_def
      digit_value_def)

theorem locate_robot_parses_reply_witness:
  "robot_reports (conns example_client) = Reply ''5 6 7 8 9 10''
   \<and> fst (locate_robot robot_reports example_client) = Inr [5, 6, 7, 8, 9, 10]"
  using locate_robot_parses_reply[of robot_reports example_client]
  by (simp add: robot_reports_def)

text \<open>
  C10. When \<^verbatim>\<open>send\<close> or \<^verbatim>\<open>recv\<close> fails inside \<^verbatim>\<open>locate_robot\<close>, the call returns
  no coordinate list: it ends in the error of reading the unbound name
  \<^verbatim>\<open>coordinate_list\<close>.
\<close>

theorem locate_robot_unbound_result:
  assumes "net (conns s) = SendFails \<or> net (conns s) = RecvFails"
  shows "fst (locate_robot net s) = Inl UnboundLocalError
         \<and> (\<forall>coordinate_list. fst (locate_robot net s) \<noteq> Inr coordinate_list)"
  using assms
  by (auto simp: locate_robot_def and_then_def connect_robot_def send_recv_def emit_def Let_def)

theorem locate_robot_unbound_result_witness:
  "(send_fails (conns example_client) = SendFails \<or> send_fails (conns example_client) = RecvFails)
   \<and> fst (locate_robot send_fails example_client) = Inl UnboundLocalError"
  using locate_robot_unbound_result[of send_fails example_client]
  by (simp add: send_fails_def)


section \<open>Properties of the operations\<close>

lemmas eval_defs = and_then_def connect_robot_def try_send_def send_recv_def
  disconnect_robot_def emit_def Let_def item_def pure_then_def

lemmas text_defs = str_int_def str_nat.simps digit_char_def

lemma sent_commands_append [simp]:
  "sent_commands (xs @ ys) = sent_commands xs @ sent_commands ys"
  by (simp add: sent_commands_def)

lemma sent_commands_simps [simp]:
  "sent_commands [] = []"
  "sent_commands (Send i c # tr) = c # sent_commands tr"
  "sent_commands (Opened i # tr) = sent_commands tr"
  "sent_commands (Closed i # tr) = sent_commands tr"
  by (simp_all add: sent_commands_def)

text \<open>One socket, one command: what a connect followed by the try block does.\<close>

lemma exchange_handled:
  assumes "\<not> escapes (net (conns s))"
  shows "\<exists>s'. and_then (connect_robot net) (\<lambda>PF400. try_send net PF400 command) s = (Inr (), s')
          \<and> conns s' = Suc (conns s)
          \<and> sent_commands (trace s') = sent_commands (trace s) @ [command]
          \<and> motion_profile s' = motion_profile s
          \<and> location_dictionary s' = location_dictionary s"
  using assms
  by (cases "net (conns s)")
     (simp_all add: and_then_def connect_robot_def try_send_def send_recv_def
        disconnect_robot_def emit_def Let_def)

lemma set_default_profile_handled:
  assumes "\<not> escapes (net (conns s))" and "n < length (motion_profile s)"
  shows "\<exists>s'. set_default_profile net command n s = (Inr (), s')
          \<and> conns s' = Suc (conns s)
          \<and> sent_commands (trace s') = sent_commands (trace s) @ [profile_command command (motion_profile s ! n)]
          \<and> motion_profile s' = motion_profile s
          \<and> location_dictionary s' = location_dictionary s"
  using assms
  by (cases "net (conns s)")
     (simp_all add: set_default_profile_def and_then_def connect_robot_def try_send_def send_recv_def
        disconnect_robot_def emit_def Let_def item_def)

text \<open>
  C2. Called with a dictionary of one entry, \<^verbatim>\<open>set_profile\<close> sends exactly two
  commands, \<^verbatim>\<open>Profile 1\<close> and \<^verbatim>\<open>Profile 2\<close>, built from the two default motion
  profiles; with a dictionary of eight entries it sends exactly one, \<^verbatim>\<open>Profile 3\<close>,
  built from the dictionary; with any other number of entries it sends nothing, changes
  nothing and raises the exception that names the count. The first two hold on sockets
  whose exceptions, if any, are those the \<^verbatim>\<open>try\<close> block catches.
\<close>

theorem set_profile_commands:
  "(length profile_dict = 1 \<and> 2 \<le> length (motion_profile s)
      \<and> \<not> escapes (net (conns s)) \<and> \<not> escapes (net (Suc (conns s))) \<longrightarrow>
        fst (set_profile net profile_dict s) = Inr ()
        \<and> sent_commands (trace (snd (set_profile net profile_dict s)))
            = sent_commands (trace s)
              @ [profile_command ''Profile 1'' (motion_profile s ! 0),
                 profile_command ''Profile 2'' (motion_profile s ! 1)])
   \<and> (length profile_dict = 8 \<and> \<not> escapes (net (conns s)) \<longrightarrow>
        fst (set_profile net profile_dict s) = Inr ()
        \<and> sent_commands (trace (snd (set_profile net profile_dict s)))
            = sent_commands (trace s) @ [profile_command ''Profile 3'' profile_dict])
   \<and> (length profile_dict \<noteq> 1 \<and> length profile_dict \<noteq> 8 \<longrightarrow>
        set_profile net profile_dict s
          = (Inl (Exception (''Motion profile takes 8 arguments, ''
                              @ str_nat (length profile_dict) @ '' where given'')), s))"
proof (intro conjI impI)
  assume h: "length profile_dict = 1 \<and> 2 \<le> length (motion_profile s)
      \<and> \<not> escapes (net (conns s)) \<and> \<not> escapes (net (Suc (conns s)))"
  then have e0: "\<not> escapes (net (conns s))" and e1: "\<not> escapes (net (Suc (conns s)))"
    and l2: "2 \<le> length (motion_profile s)"
    by simp_all
  from l2 have l0: "0 < length (motion_profile s)" and l1: "1 < length (motion_profile s)"
    by linarith+
  obtain s1 where s1: "set_default_profile net ''Profile 1'' 0 s = (Inr (), s1)"
      "conns s1 = Suc (conns s)"
      "sent_commands (trace s1) = sent_commands (trace s) @ [profile_command ''Profile 1'' (motion_profile s ! 0)]"
      "motion_profile s1 = motion_profile s"
    using set_default_profile_handled[of net s 0 "''Profile 1''"] e0 l0 by blast
  have e1': "\<not> escapes (net (conns s1))" and l1': "1 < length (motion_profile s1)"
    using e1 l1 s1 by simp_all
  obtain s2 where s2: "set_default_profile net ''Profile 2'' 1 s1 = (Inr (), s2)"
      "sent_commands (trace s2) = sent_commands (trace s1) @ [profile_command ''Profile 2'' (motion_profile s1 ! 1)]"
    using set_default_profile_handled[of net s1 1 "''Profile 2''"] e1' l1' by blast
  have run: "set_profile net profile_dict s = (Inr (), s2)"
    using h s1(1) s2(1) by (simp add: set_profile_def and_then_def)
  show "fst (set_profile net profile_dict s) = Inr ()"
    by (simp add: run)
  show "sent_commands (trace (snd (set_profile net profile_dict s)))
            = sent_commands (trace s)
              @ [profile_command ''Profile 1'' (motion_profile s ! 0),
                 profile_command ''Profile 2'' (motion_profile s ! 1)]"
    by (simp add: run s2(2) s1(3) s1(4))
next
  assume h: "length profile_dict = 8 \<and> \<not> escapes (net (conns s))"
  then have e0: "\<not> escapes (net (conns s))" by simp
  obtain s1 where s1:
      "and_then (connect_robot net) (\<lambda>PF400. try_send net PF400 (profile_command ''Profile 3'' profile_dict)) s = (Inr (), s1)"
      "sent_commands (trace s1) = sent_commands (trace s) @ [profile_command ''Profile 3'' profile_dict]"
    using exchange_handled[of net s "profile_command ''Profile 3'' profile_dict"] e0 by blast
  have run: "set_profile net profile_dict s = (Inr (), s1)"
    using h s1(1) by (simp add: set_profile_def)
  show "fst (set_profile net profile_dict s) = Inr ()"
    by (simp add: run)
  show "sent_commands (trace (snd (set_profile net profile_dict s)))
            = sent_commands (trace s) @ [profile_command ''Profile 3'' profile_dict]"
    by (simp add: run s1(2))
next
  assume "length profile_dict \<noteq> 1 \<and> length profile_dict \<noteq> 8"
  then show "set_profile net profile_dict s
          = (Inl (Exception (''Motion profile takes 8 arguments, ''
                              @ str_nat (length profile_dict) @ '' where given'')), s)"
    by (simp add: set_profile_def)
qed

theorem set_profile_commands_witness:
  "sent_commands (trace (snd (set_profile robot_ok [(''0'', PyInt 0)] example_client)))
     = [''Profile 1 30 0 100 100 0.1 0.1 10 0\<newline>'', ''Profile 2 60 0 100 100 0.1 0.1 10 0\<newline>'']
   \<and> sent_commands (trace (snd (set_profile robot_ok slow_profile example_client)))
     = [''Profile 3 30 0 100 100 0.1 0.1 10 0\<newline>'']
   \<and> set_profile robot_ok [] example_client
     = (Inl (Exception ''Motion profile takes 8 arguments, 0 where given''), example_client)"
proof -
  have one: "length [(''0'', PyInt 0)] = 1 \<and> 2 \<le> length (motion_profile example_client)
      \<and> \<not> escapes (robot_ok (conns example_client)) \<and> \<not> escapes (robot_ok (Suc (conns example_client)))"
    by (simp add: example_client_def robot_ok_def)
  have eight: "length slow_profile = 8 \<and> \<not> escapes (robot_ok (conns example_client))"
    by (simp add: slow_profile_def robot_ok_def)
  have other: "length ([] :: (string \<times> pynum) list) \<noteq> 1 \<and> length ([] :: (string \<times> pynum) list) \<noteq> 8"
    by simp
  have a: "sent_commands (trace (snd (set_profile robot_ok [(''0'', PyInt 0)] example_client)))
     = [''Profile 1 30 0 100 100 0.1 0.1 10 0\<newline>'', ''Profile 2 60 0 100 100 0.1 0.1 10 0\<newline>'']"
    using set_profile_commands[of "[(''0'', PyInt 0)]" example_client robot_ok] one
    by (simp add: example_client_def slow_profile_def fast_profile_def text_defs)
  have b: "sent_commands (trace (snd (set_profile robot_ok slow_profile example_client)))
     = [''Profile 3 30 0 100 100 0.1 0.1 10 0\<newline>'']"
    using set_profile_commands[of slow_profile example_client robot_ok] eight
    by (simp add: example_client_def slow_profile_def text_defs)
  have c: "set_profile robot_ok [] example_client
     = (Inl (Exception ''Motion profile takes 8 arguments, 0 where given''), example_client)"
    using set_profile_commands[of "[]" example_client robot_ok] other
    by (simp add: text_defs)
  show ?thesis using a b c by simp
qed

lemma exchange_handled_split:
  assumes "\<not> escapes (net (conns s))"
  shows "\<exists>PF400 s1 s'. connect_robot net s = (Inr PF400, s1)
          \<and> try_send net PF400 command s1 = (Inr (), s')
          \<and> conns s' = Suc (conns s)
          \<and> sent_commands (trace s') = sent_commands (trace s) @ [command]"
  using assms
  by (cases "net (conns s)") (simp_all add: eval_defs)

lemma move_loop_handled:
  assumes "\<forall>i < length commands. \<not> escapes (net (conns s + i))"
  shows "fst (move_loop net commands s) = Inr ()
         \<and> conns (snd (move_loop net commands s)) = conns s + length commands
         \<and> sent_commands (trace (snd (move_loop net commands s)))
             = sent_commands (trace s) @ commands"
  using assms
proof (induction commands arbitrary: s)
  case Nil
  then show ?case by simp
next
  case (Cons command rest)
  have "\<not> escapes (net (conns s))" using Cons.prems by force
  then obtain PF400 s1 s' where x: "connect_robot net s = (Inr PF400, s1)"
      "try_send net PF400 command s1 = (Inr (), s')"
      "conns s' = Suc (conns s)"
      "sent_commands (trace s') = sent_commands (trace s) @ [command]"
    using exchange_handled_split[of net s command] by blast
  have "\<forall>i < length rest. \<not> escapes (net (conns s' + i))"
  proof (intro allI impI)
    fix i assume "i < length rest"
    then have "Suc i < length (command # rest)" by simp
    then have "\<not> escapes (net (conns s + Suc i))" using Cons.prems by blast
    then show "\<not> escapes (net (conns s' + i))" by (simp add: x(3))
  qed
  then have ih: "fst (move_loop net rest s') = Inr ()
         \<and> conns (snd (move_loop net rest s')) = conns s' + length rest
         \<and> sent_commands (trace (snd (move_loop net rest s')))
             = sent_commands (trace s') @ rest"
    by (rule Cons.IH)
  have "move_loop net (command # rest) s = move_loop net rest s'"
    using x(1,2) by simp
  then show ?case using ih x(3,4) by simp
qed

lemma known_location_command:
  assumes "location_dictionary s robot_location = Some joints"
    and "profile = 1 \<or> profile = 2 \<or> profile = 3"
  shows "\<exists>command. set_move_command s robot_location profile grab release = Inr command"
  using assms by (auto simp: set_move_command_def pure_then_def)

text \<open>
  C3. \<^verbatim>\<open>pick_plate_ot2\<close> with \<^verbatim>\<open>ot2_ID = 1\<close> (and the default profile), on a table
  that holds the three locations of station 1 and on sockets whose exceptions, if any, are
  those the \<^verbatim>\<open>try\<close> block catches: the routine asks for exactly six sockets and sends
  exactly six move commands, in this order: front, above the plate, the pick location (the
  approach), the pick location with the grip override, above the plate with the grip
  override, front with the grip override; the first three with the fast profile 2, the last
  three with the slow profile 1.
\<close>

theorem pick_plate_ot2_sequence:
  assumes front: "location_dictionary s ''OT2_1_front'' = Some front_joints"
    and above: "location_dictionary s ''OT2_1_above_plate'' = Some above_joints"
    and pick: "location_dictionary s ''OT2_1_pick_plate'' = Some pick_joints"
    and net: "\<forall>i < 6. \<not> escapes (net (conns s + i))"
  shows "\<exists>move_front above_plate approach_plate pick_up_plate above_with_plate front_with_plate.
           set_move_command s ''OT2_1_front'' 2 False False = Inr move_front
         \<and> set_move_command s ''OT2_1_above_plate'' 2 False False = Inr above_plate
         \<and> set_move_command s ''OT2_1_pick_plate'' 2 False False = Inr approach_plate
         \<and> set_move_command s ''OT2_1_pick_plate'' 1 True False = Inr pick_up_plate
         \<and> set_move_command s ''OT2_1_above_plate'' 1 True False = Inr above_with_plate
         \<and> set_move_command s ''OT2_1_front'' 1 True False = Inr front_with_plate
         \<and> fst (pick_plate_ot2 net 1 0 s) = Inr ()
         \<and> conns (snd (pick_plate_ot2 net 1 0 s)) = conns s + 6
         \<and> sent_commands (trace (snd (pick_plate_ot2 net 1 0 s)))
             = sent_commands (trace s)
               @ [move_front, above_plate, approach_plate, pick_up_plate, above_with_plate,
                  front_with_plate]"
proof -
  obtain move_front where 1: "set_move_command s ''OT2_1_front'' 2 False False = Inr move_front"
    using known_location_command[OF front, of 2] by auto
  obtain above_plate where 2: "set_move_command s ''OT2_1_above_plate'' 2 False False = Inr above_plate"
    using known_location_command[OF above, of 2] by auto
  obtain approach_plate where 3: "set_move_command s ''OT2_1_pick_plate'' 2 False False = Inr approach_plate"
    using known_location_command[OF pick, of 2] by auto
  obtain pick_up_plate where 4: "set_move_command s ''OT2_1_pick_plate'' 1 True False = Inr pick_up_plate"
    using known_location_command[OF pick, of 1] by auto
  obtain above_with_plate where 5: "set_move_command s ''OT2_1_above_plate'' 1 True False = Inr above_with_plate"
    using known_location_command[OF above, of 1] by auto
  obtain front_with_plate where 6: "set_move_command s ''OT2_1_front'' 1 True False = Inr front_with_plate"
    using known_location_command[OF front, of 1] by auto
  let ?commands = "[move_front, above_plate, approach_plate, pick_up_plate, above_with_plate,
                    front_with_plate]"
  have run: "pick_plate_ot2 net 1 0 s = move_loop net ?commands s"
    using 1 2 3 4 5 6
    by (simp add: pick_plate_ot2_def speeds_def ot2_def str_int_small pure_then_def)
  have "\<forall>i < length ?commands. \<not> escapes (net (conns s + i))"
    using net by simp
  then have "fst (move_loop net ?commands s) = Inr ()
         \<and> conns (snd (move_loop net ?commands s)) = conns s + length ?commands
         \<and> sent_commands (trace (snd (move_loop net ?commands s)))
             = sent_commands (trace s) @ ?commands"
    by (rule move_loop_handled)
  then show ?thesis using 1 2 3 4 5 6 run by simp
qed

theorem pick_plate_ot2_sequence_witness:
  "location_dictionary example_client ''OT2_1_front''
     = Some [PyInt 11, PyInt 12, PyInt 13, PyInt 14, PyInt 15, PyInt 16]
   \<and> list_all (\<lambda>i. robot_ok (conns example_client + i) = Reply ''0'') [0, 1, 2, 3, 4, 5]
   \<and> fst (pick_plate_ot2 robot_ok 1 0 example_client) = Inr ()
   \<and> conns (snd (pick_plate_ot2 robot_ok 1 0 example_client)) = 6
   \<and> sent_commands (trace (snd (pick_plate_ot2 robot_ok 1 0 example_client)))
       = [''MoveJ 2 11 12 13 14 15 16\<newline>'',
          ''MoveJ 2 21 22 23 24 25 26\<newline>'',
          ''MoveJ 2 31 32 33 34 35 36\<newline>'',
          ''MoveJ 1 31 32 33 34 120.0 36\<newline>'',
          ''MoveJ 1 21 22 23 24 120.0 26\<newline>'',
          ''MoveJ 1 11 12 13 14 120.0 16\<newline>'']"
proof -
  have front: "location_dictionary example_client ''OT2_1_front''
     = Some [PyInt 11, PyInt 12, PyInt 13, PyInt 14, PyInt 15, PyInt 16]"
    by (simp add: example_client_def)
  have above: "location_dictionary example_client ''OT2_1_above_plate''
     = Some [PyInt 21, PyInt 22, PyInt 23, PyInt 24, PyInt 25, PyInt 26]"
    by (simp add: example_client_def)
  have pick: "location_dictionary example_client ''OT2_1_pick_plate''
     = Some [PyInt 31, PyInt 32, PyInt 33, PyInt 34, PyInt 35, PyInt 36]"
    by (simp add: example_client_def)
  have net: "\<forall>i < 6. \<not> escapes (robot_ok (conns example_client + i))"
    by (simp add: robot_ok_def)
  have answers: "list_all (\<lambda>i. robot_ok (conns example_client + i) = Reply ''0'') [0, 1, 2, 3, 4, 5]"
    by (simp add: robot_ok_def)
  have cmds:
    "set_move_command example_client ''OT2_1_front'' 2 False False = Inr ''MoveJ 2 11 12 13 14 15 16\<newline>''"
    "set_move_command example_client ''OT2_1_above_plate'' 2 False False = Inr ''MoveJ 2 21 22 23 24 25 26\<newline>''"
    "set_move_command example_client ''OT2_1_pick_plate'' 2 False False = Inr ''MoveJ 2 31 32 33 34 35 36\<newline>''"
    "set_move_command example_client ''OT2_1_pick_plate'' 1 True False = Inr ''MoveJ 1 31 32 33 34 120.0 36\<newline>''"
    "set_move_command example_client ''OT2_1_above_plate'' 1 True False = Inr ''MoveJ 1 21 22 23 24 120.0 26\<newline>''"
    "set_move_command example_client ''OT2_1_front'' 1 True False = Inr ''MoveJ 1 11 12 13 14 120.0 16\<newline>''"
    by (simp_all add: set_move_command_def example_client_def pure_then_def text_defs grip_value_def)
  have z: "conns example_client = 0" "trace example_client = []"
    by (simp_all add: example_client_def)
  show ?thesis
    using pick_plate_ot2_sequence[OF front above pick net] front answers
    by (simp add: cmds z)
qed

text \<open>
  C4. \<^verbatim>\<open>teach_location\<close> with the location \<^verbatim>\<open>HomeALL\<close> and no robot id, on the
  example configuration and a robot that reports \<^verbatim>\<open>5 6 7 8 9 10\<close>: the call returns
  normally and the entry \<^verbatim>\<open>HomeALL\<close> of the location table still holds its old
  values.
\<close>

theorem teach_homeall_changes_nothing:
  "fst (locate_robot robot_reports example_client) = Inr [5, 6, 7, 8, 9, 10]
   \<and> fst (teach_location robot_reports ''HomeALL'' None example_client) = Inr ()
   \<and> location_dictionary (snd (teach_location robot_reports ''HomeALL'' None example_client))
        ''HomeALL''
      = Some [PyInt 1, PyFloat ''2.0'', PyInt 3, PyInt 4, PyInt 5, PyInt 6]"
  by (simp add: teach_location_def teach_body_def lower_method_equals_def locate_robot_def
      example_client_def example_joints_def eval_defs robot_reports_def
      parse_int_def strip_def is_space_def parse_nat_def digit_value_def)


section \<open>Properties that hold for every operation\<close>

lemma steps_and_then:
  assumes "\<forall>a b c. R a b \<longrightarrow> R b c \<longrightarrow> R a c" and "steps R m" and "\<And>v. steps R (f v)"
  shows "steps R (and_then m f)"
  unfolding steps_def
proof
  fix s
  show "R s (snd (and_then m f s))"
  proof (cases "m s")
    case (Pair r s1)
    have 1: "R s s1" using assms(2) Pair by (metis steps_def snd_conv)
    show ?thesis
    proof (cases r)
      case (Inl e)
      then show ?thesis using Pair 1 by (simp add: and_then_def)
    next
      case (Inr v)
      have "R s1 (snd (f v s1))" using assms(3)[of v] by (simp add: steps_def)
      with 1 assms(1) have "R s (snd (f v s1))" by blast
      then show ?thesis using Pair Inr by (simp add: and_then_def)
    qed
  qed
qed

lemma steps_exchange:
  assumes "compatible net R"
  shows "steps R (and_then (connect_robot net) (\<lambda>PF400. try_send net PF400 command))"
  using assms by (intro steps_and_then) (auto simp: compatible_def)

lemma steps_move_loop:
  assumes "compatible net R"
  shows "R s (snd (move_loop net commands s))"
proof (induction commands arbitrary: s)
  case Nil
  then show ?case using assms by (simp add: compatible_def)
next
  case (Cons command rest)
  obtain r1 s1 where c: "connect_robot net s = (r1, s1)" by (cases "connect_robot net s")
  have 1: "R s s1" using assms c by (metis compatible_def steps_def snd_conv)
  show ?case
  proof (cases r1)
    case (Inl e)
    then show ?thesis using c 1 by simp
  next
    case (Inr PF400)
    obtain r2 s2 where t: "try_send net PF400 command s1 = (r2, s2)"
      by (cases "try_send net PF400 command s1")
    have 2: "R s1 s2" using assms t by (metis compatible_def steps_def snd_conv)
    have 12: "R s s2" using 1 2 assms by (metis compatible_def)
    show ?thesis
    proof (cases r2)
      case (Inl e)
      then show ?thesis using c Inr t 12 by simp
    next
      case (Inr u)
      have "R s2 (snd (move_loop net rest s2))" by (rule Cons.IH)
      with 12 assms have "R s (snd (move_loop net rest s2))" by (metis compatible_def)
      then show ?thesis using c \<open>r1 = Inr PF400\<close> t Inr by simp
    qed
  qed
qed

lemma steps_send_list:
  assumes "compatible net R"
  shows "R s (snd (case r of Inl e \<Rightarrow> (Inl e, s) | Inr commands \<Rightarrow> move_loop net commands s))"
  using assms steps_move_loop[OF assms] by (cases r) (simp_all add: compatible_def)

lemma steps_pick_plate_ot2:
  "compatible net R \<Longrightarrow> steps R (pick_plate_ot2 net ot2_ID profile)"
  by (simp add: steps_def pick_plate_ot2_def steps_send_list split: prod.split)

lemma steps_drop_plate_ot2:
  "compatible net R \<Longrightarrow> steps R (drop_plate_ot2 net ot2_ID profile)"
  by (simp add: steps_def drop_plate_ot2_def steps_send_list split: prod.split)

lemma steps_pick_plate_from_rack:
  "compatible net R \<Longrightarrow> steps R (pick_plate_from_rack net ot2_ID profile)"
  by (simp add: steps_def pick_plate_from_rack_def steps_send_list split: prod.split)

lemma steps_drop_complete_plate:
  "compatible net R \<Longrightarrow> steps R (drop_complete_plate net profile)"
  by (simp add: steps_def drop_complete_plate_def steps_send_list split: prod.split)

lemma steps_move_single:
  assumes "compatible net R"
  shows "steps R (move_single net target_location profile grap release)"
proof -
  have "steps R (\<lambda>s1. case set_move_command s1 target_location profile grap release of
            Inl e \<Rightarrow> (Inl e, s1)
          | Inr command \<Rightarrow> try_send net PF400 command s1)" for PF400
    using assms by (auto simp: compatible_def steps_def split: sum.split)
  then have "steps R (and_then (connect_robot net)
       (\<lambda>PF400 s1. case set_move_command s1 target_location profile grap release of
            Inl e \<Rightarrow> (Inl e, s1)
          | Inr command \<Rightarrow> try_send net PF400 command s1))"
    using assms by (intro steps_and_then) (auto simp: compatible_def)
  then show ?thesis by (simp add: steps_def move_single_def)
qed

lemma steps_set_default_profile:
  assumes "compatible net R"
  shows "steps R (set_default_profile net command n)"
proof -
  have "steps R (\<lambda>s1. case item (motion_profile s1) n of
            Inl e \<Rightarrow> (Inl e, s1)
          | Inr d \<Rightarrow> try_send net PF400 (profile_command command d) s1)" for PF400
    using assms by (auto simp: compatible_def steps_def split: sum.split)
  then have "steps R (and_then (connect_robot net)
       (\<lambda>PF400 s1. case item (motion_profile s1) n of
            Inl e \<Rightarrow> (Inl e, s1)
          | Inr d \<Rightarrow> try_send net PF400 (profile_command command d) s1))"
    using assms by (intro steps_and_then) (auto simp: compatible_def)
  then show ?thesis by (simp add: steps_def set_default_profile_def)
qed

lemma steps_set_profile:
  assumes "compatible net R"
  shows "steps R (set_profile net profile_dict)"
proof -
  have 1: "steps R (and_then (set_default_profile net ''Profile 1'' 0)
          (\<lambda>_. set_default_profile net ''Profile 2'' 1))"
    using assms by (intro steps_and_then steps_set_default_profile) (auto simp: compatible_def)
  have 2: "steps R (and_then (connect_robot net)
          (\<lambda>PF400. try_send net PF400 (profile_command ''Profile 3'' profile_dict)))"
    by (rule steps_exchange[OF assms])
  show ?thesis
    using 1 2 assms by (simp add: steps_def set_profile_def compatible_def)
qed

lemma steps_program_robot_target:
  assumes "compatible net R"
  shows "steps R (program_robot_target net job robot_ID_list)"
proof -
  have tr: "\<forall>a b c. R a b \<longrightarrow> R b c \<longrightarrow> R a c" using assms by (simp add: compatible_def)
  have 1: "steps R (and_then (move_single net ''HomeALL'' 2 False False) (\<lambda>_.
             and_then (pick_plate_ot2 net a 0) (\<lambda>_.
             drop_plate_ot2 net b 0)))" for a b
    by (intro steps_and_then tr steps_move_single steps_pick_plate_ot2 steps_drop_plate_ot2 assms)
  have 2: "steps R (and_then (move_single net ''HomeALL'' 2 False False) (\<lambda>_.
        and_then (pick_plate_from_rack net 1 0) (\<lambda>_.
        and_then (drop_plate_ot2 net 1 0) (\<lambda>_.
        and_then (pick_plate_ot2 net 1 0) (\<lambda>_.
        and_then (drop_plate_ot2 net 2 0) (\<lambda>_.
        and_then (pick_plate_ot2 net 2 0) (\<lambda>_.
        and_then (drop_plate_ot2 net 3 0) (\<lambda>_.
        and_then (pick_plate_ot2 net 3 0) (\<lambda>_.
        drop_complete_plate net 0)))))))))"
    by (intro steps_and_then tr steps_move_single steps_pick_plate_ot2 steps_drop_plate_ot2
        steps_pick_plate_from_rack steps_drop_complete_plate assms)
  show ?thesis
    using 1 2 assms
    by (auto simp: steps_def program_robot_target_def compatible_def split: sum.split)
qed

lemma steps_simple:
  assumes "compatible net R"
  shows "steps R (check_robot_heartbeat net)" "steps R (stop_robot net)" "steps R (set_speed net speed)"
  using steps_exchange[OF assms]
  by (simp_all add: steps_def check_robot_heartbeat_def stop_robot_def set_speed_def)

lemma compatible_same_table: "compatible net same_table"
  by (auto simp: compatible_def steps_def same_table_def eval_defs
      split: outcome.split option.split)

lemma closed_answered_refl: "closed_answered net s s"
  by (auto simp: closed_answered_def list_all_iff split: event.split)

lemma closed_answered_iff:
  "closed_answered net s s' \<longleftrightarrow>
     (\<forall>i. Closed i \<in> set (trace s') \<longrightarrow> Closed i \<in> set (trace s) \<or> answered (net i))"
proof
  assume h: "closed_answered net s s'"
  show "\<forall>i. Closed i \<in> set (trace s') \<longrightarrow> Closed i \<in> set (trace s) \<or> answered (net i)"
  proof (intro allI impI)
    fix i assume "Closed i \<in> set (trace s')"
    with h show "Closed i \<in> set (trace s) \<or> answered (net i)"
      by (fastforce simp: closed_answered_def list_all_iff)
  qed
next
  assume "\<forall>i. Closed i \<in> set (trace s') \<longrightarrow> Closed i \<in> set (trace s) \<or> answered (net i)"
  then show "closed_answered net s s'"
    by (auto simp: closed_answered_def list_all_iff split: event.split)
qed

lemma closed_answered_trans:
  "closed_answered net a b \<Longrightarrow> closed_answered net b c \<Longrightarrow> closed_answered net a c"
  unfolding closed_answered_iff by blast

lemma compatible_closed_answered: "compatible net (closed_answered net)"
  unfolding compatible_def
proof (intro conjI allI impI)
  fix s show "closed_answered net s s" by (rule closed_answered_refl)
next
  fix a b c assume "closed_answered net a b" "closed_answered net b c"
  then show "closed_answered net a c" by (rule closed_answered_trans)
next
  show "steps (closed_answered net) (connect_robot net)"
    by (auto simp: steps_def closed_answered_iff eval_defs split: outcome.split)
next
  fix PF400 command
  show "steps (closed_answered net) (try_send net PF400 command)"
    by (auto simp: steps_def closed_answered_iff eval_defs split: outcome.split option.split)
qed

lemma locate_robot_same_table: "steps same_table (locate_robot net)"
  by (auto simp: steps_def same_table_def locate_robot_def eval_defs
      split: outcome.split option.split)

lemma locate_robot_closed_answered: "steps (closed_answered net) (locate_robot net)"
  by (auto simp: steps_def closed_answered_iff locate_robot_def eval_defs
      split: outcome.split option.split)

lemma teach_entries_trace: "trace (snd (teach_entries key cur entries s)) = trace s"
  by (induction key cur entries s rule: teach_entries.induct)
     (auto split: option.split sum.split)

lemma teach_key_trace: "trace (snd (teach_key key_name cur s)) = trace s"
  by (auto simp: teach_key_def teach_entries_trace split: option.split)

lemma teach_body_trace: "trace (snd (teach_body location robot_id cur s)) = trace s"
  by (auto simp: teach_body_def lower_method_equals_def teach_key_trace split: option.split)

lemma closed_answered_same_trace:
  "closed_answered net s s1 \<Longrightarrow> trace s2 = trace s1 \<Longrightarrow> closed_answered net s s2"
  by (simp add: closed_answered_def)

lemma teach_location_closed_answered: "steps (closed_answered net) (teach_location net location robot_id)"
  unfolding steps_def
proof
  fix s
  obtain r s1 where l: "locate_robot net s = (r, s1)" by (cases "locate_robot net s")
  have 1: "closed_answered net s s1"
    using locate_robot_closed_answered[of net] l by (metis steps_def snd_conv)
  show "closed_answered net s (snd (teach_location net location robot_id s))"
  proof (cases r)
    case (Inl e)
    then show ?thesis using l 1 by (simp add: teach_location_def and_then_def)
  next
    case (Inr cur)
    have "trace (snd (teach_body location robot_id cur s1)) = trace s1"
      by (rule teach_body_trace)
    then have "closed_answered net s (snd (teach_body location robot_id cur s1))"
      using 1 closed_answered_same_trace by blast
    then show ?thesis using l Inr
      by (auto simp: teach_location_def and_then_def split: prod.split)
  qed
qed

text \<open>
  Every operation but locating and teaching is a step of a compatible relation, and
  locating too when it keeps the relation.
\<close>

lemma steps_run_commands:
  assumes "compatible net R" and "op \<noteq> LocateRobot"
    and "\<forall>location robot_id. op \<noteq> TeachLocation location robot_id"
  shows "R s (snd (run net op s))"
proof (cases op)
  case (SetProfile x1)
  then show ?thesis using steps_set_profile[OF assms(1)] by (simp add: steps_def)
next
  case CheckRobotHeartbeat
  then show ?thesis using steps_simple(1)[OF assms(1)] by (simp add: steps_def)
next
  case StopRobot
  then show ?thesis using steps_simple(2)[OF assms(1)] by (simp add: steps_def)
next
  case (PickPlateOt2 x41 x42)
  then show ?thesis using steps_pick_plate_ot2[OF assms(1)] by (simp add: steps_def)
next
  case (DropPlateOt2 x51 x52)
  then show ?thesis using steps_drop_plate_ot2[OF assms(1)] by (simp add: steps_def)
next
  case (PickPlateFromRack x61 x62)
  then show ?thesis using steps_pick_plate_from_rack[OF assms(1)] by (simp add: steps_def)
next
  case (DropCompletePlate x7)
  then show ?thesis using steps_drop_complete_plate[OF assms(1)] by (simp add: steps_def)
next
  case (MoveSingle x81 x82 x83 x84)
  then show ?thesis using steps_move_single[OF assms(1)] by (simp add: steps_def)
next
  case (ProgramRobotTarget x91 x92)
  then show ?thesis using steps_program_robot_target[OF assms(1)] by (simp add: steps_def)
next
  case (SetSpeed x10)
  then show ?thesis using steps_simple(3)[OF assms(1)] by (simp add: steps_def)
next
  case LocateRobot
  then show ?thesis using assms(2) by simp
next
  case (TeachLocation x121 x122)
  then show ?thesis using assms(3) by simp
qed

lemma steps_run:
  assumes "compatible net R" and "steps R (locate_robot net)"
    and "\<forall>location robot_id. op \<noteq> TeachLocation location robot_id"
  shows "R s (snd (run net op s))"
proof (cases "op = LocateRobot")
  case True
  then show ?thesis using assms(2) by (auto simp: steps_def split: prod.split sum.split)
      (metis snd_conv)+
next
  case False
  then show ?thesis by (rule steps_run_commands[OF assms(1) _ assms(3)])
qed

lemma run_closed_answered: "closed_answered net s (snd (run net op s))"
proof (cases "\<exists>location robot_id. op = TeachLocation location robot_id")
  case True
  then show ?thesis using teach_location_closed_answered[of net] by (auto simp: steps_def)
next
  case False
  then show ?thesis
    using steps_run[OF compatible_closed_answered locate_robot_closed_answered] by blast
qed

lemma teach_entries_conns: "conns (snd (teach_entries key cur entries s)) = conns s"
  by (induction key cur entries s rule: teach_entries.induct)
     (auto split: option.split sum.split)

lemma teach_body_conns: "conns (snd (teach_body location robot_id cur s)) = conns s"
  by (auto simp: teach_body_def lower_method_equals_def teach_key_def teach_entries_conns
      split: option.split)

lemma locate_robot_conns: "conns (snd (locate_robot net s)) = Suc (conns s)"
  by (auto simp: locate_robot_def eval_defs split: outcome.split option.split)

lemma locate_robot_failure:
  "failure (net (conns s)) \<Longrightarrow> \<exists>e. fst (locate_robot net s) = Inl e"
  by (cases "net (conns s)") (auto simp: locate_robot_def eval_defs)

lemma teach_location_conns: "conns (snd (teach_location net location robot_id s)) = Suc (conns s)"
proof -
  obtain r s1 where l: "locate_robot net s = (r, s1)" by (cases "locate_robot net s")
  then have "conns s1 = Suc (conns s)" using locate_robot_conns[of net s] by simp
  moreover have "conns s2 = conns s1" if "teach_body location robot_id cur s1 = (r2, s2)" for cur r2 s2
    using teach_body_conns[of location robot_id cur s1] that by simp
  ultimately show ?thesis using l
    by (cases r) (auto simp: teach_location_def and_then_def split: prod.split)
qed

lemma teach_location_failure:
  assumes "failure (net (conns s))"
  shows "location_dictionary (snd (teach_location net location robot_id s)) = location_dictionary s"
proof -
  obtain e where e: "fst (locate_robot net s) = Inl e"
    using locate_robot_failure[of net s] assms by blast
  obtain r s1 where l: "locate_robot net s = (r, s1)" by (cases "locate_robot net s")
  have "same_table s s1" using locate_robot_same_table[of net] l by (metis steps_def snd_conv)
  then show ?thesis using e l by (simp add: teach_location_def and_then_def same_table_def)
qed

lemma run_table_on_failure:
  assumes "transport_failed net s (snd (run net op s))"
  shows "location_dictionary (snd (run net op s)) = location_dictionary s"
proof (cases "\<exists>location robot_id. op = TeachLocation location robot_id")
  case True
  then obtain location robot_id where op: "op = TeachLocation location robot_id" by blast
  have "failure (net (conns s))"
    using assms by (simp add: op transport_failed_def teach_location_conns)
  then show ?thesis using teach_location_failure by (simp add: op)
next
  case False
  then have "same_table s (snd (run net op s))"
    using steps_run[OF compatible_same_table locate_robot_same_table] by blast
  then show ?thesis by (simp add: same_table_def)
qed

text \<open>No \<^verbatim>\<open>socket.error\<close> reaches the caller unless a connect fails.\<close>

lemma quiet_and_then: "quiet m \<Longrightarrow> (\<And>v. quiet (f v)) \<Longrightarrow> quiet (and_then m f)"
  by (auto simp: quiet_def and_then_def split: prod.split sum.split) (metis fst_conv)+

lemma quiet_connect_robot: "\<forall>i. net i \<noteq> ConnectFails \<Longrightarrow> quiet (connect_robot net)"
  by (auto simp: quiet_def connect_robot_def Let_def split: outcome.split)

lemma quiet_try_send: "quiet (try_send net PF400 command)"
  by (auto simp: quiet_def eval_defs split: outcome.split option.split)

lemma quiet_exchange:
  "\<forall>i. net i \<noteq> ConnectFails \<Longrightarrow> quiet (and_then (connect_robot net) (\<lambda>PF400. try_send net PF400 command))"
  by (intro quiet_and_then quiet_connect_robot quiet_try_send)

lemma quiet_move_loop:
  assumes "\<forall>i. net i \<noteq> ConnectFails"
  shows "fst (move_loop net commands s) \<noteq> Inl SocketError"
proof (induction commands arbitrary: s)
  case Nil
  then show ?case by simp
next
  case (Cons command rest)
  have c: "fst (connect_robot net s) \<noteq> Inl SocketError"
    using quiet_connect_robot[OF assms] by (simp add: quiet_def)
  have t: "fst (try_send net PF400 command s1) \<noteq> Inl SocketError" for PF400 s1
    using quiet_try_send[of net PF400 command] by (simp add: quiet_def)
  show ?case using c t Cons.IH
    by (auto split: prod.split sum.split) (metis fst_conv)+
qed

lemma set_move_command_not_socket:
  "set_move_command s robot_location profile grab release \<noteq> Inl SocketError"
  by (auto simp: set_move_command_def pure_then_def split: option.split)

lemma pure_then_socket_iff:
  "pure_then r f = Inl SocketError \<longleftrightarrow>
     r = Inl SocketError \<or> (\<exists>v. r = Inr v \<and> f v = Inl SocketError)"
  by (cases r) (auto simp: pure_then_def)

lemma quiet_send_list:
  assumes "\<forall>i. net i \<noteq> ConnectFails" and "r \<noteq> Inl SocketError"
  shows "fst (case r of Inl e \<Rightarrow> (Inl e, s) | Inr commands \<Rightarrow> move_loop net commands s) \<noteq> Inl SocketError"
  using assms quiet_move_loop[OF assms(1)] by (cases r) auto

lemma quiet_pick_plate_ot2:
  assumes "\<forall>i. net i \<noteq> ConnectFails"
  shows "quiet (pick_plate_ot2 net ot2_ID profile)"
  unfolding quiet_def pick_plate_ot2_def
  by (auto split: prod.split intro!: quiet_send_list[OF assms]
      simp: pure_then_socket_iff set_move_command_not_socket)

lemma quiet_drop_plate_ot2:
  assumes "\<forall>i. net i \<noteq> ConnectFails"
  shows "quiet (drop_plate_ot2 net ot2_ID profile)"
  unfolding quiet_def drop_plate_ot2_def
  by (auto split: prod.split intro!: quiet_send_list[OF assms]
      simp: pure_then_socket_iff set_move_command_not_socket)

lemma quiet_pick_plate_from_rack:
  assumes "\<forall>i. net i \<noteq> ConnectFails"
  shows "quiet (pick_plate_from_rack net ot2_ID profile)"
  unfolding quiet_def pick_plate_from_rack_def
  by (auto split: prod.split intro!: quiet_send_list[OF assms]
      simp: pure_then_socket_iff set_move_command_not_socket)

lemma quiet_drop_complete_plate:
  assumes "\<forall>i. net i \<noteq> ConnectFails"
  shows "quiet (drop_complete_plate net profile)"
  unfolding quiet_def drop_complete_plate_def
  by (auto split: prod.split intro!: quiet_send_list[OF assms]
      simp: pure_then_socket_iff set_move_command_not_socket)

lemma quiet_move_single:
  assumes "\<forall>i. net i \<noteq> ConnectFails"
  shows "quiet (move_single net target_location profile grap release)"
proof -
  have "quiet (\<lambda>s1. case set_move_command s1 target_location profile grap release of
            Inl e \<Rightarrow> (Inl e, s1)
          | Inr command \<Rightarrow> try_send net PF400 command s1)" for PF400
    using quiet_try_send[of net PF400] set_move_command_not_socket
    by (auto simp: quiet_def split: sum.split)
  then have "quiet (and_then (connect_robot net)
       (\<lambda>PF400 s1. case set_move_command s1 target_location profile grap release of
            Inl e \<Rightarrow> (Inl e, s1)
          | Inr command \<Rightarrow> try_send net PF400 command s1))"
    by (intro quiet_and_then quiet_connect_robot assms)
  then show ?thesis by (simp add: quiet_def move_single_def)
qed

lemma quiet_set_default_profile:
  assumes "\<forall>i. net i \<noteq> ConnectFails"
  shows "quiet (set_default_profile net command n)"
proof -
  have "quiet (\<lambda>s1. case item (motion_profile s1) n of
            Inl e \<Rightarrow> (Inl e, s1)
          | Inr d \<Rightarrow> try_send net PF400 (profile_command command d) s1)" for PF400
    using quiet_try_send[of net PF400]
    by (auto simp: quiet_def item_def split: sum.split)
  then have "quiet (and_then (connect_robot net)
       (\<lambda>PF400 s1. case item (motion_profile s1) n of
            Inl e \<Rightarrow> (Inl e, s1)
          | Inr d \<Rightarrow> try_send net PF400 (profile_command command d) s1))"
    by (intro quiet_and_then quiet_connect_robot assms)
  then show ?thesis by (simp add: quiet_def set_default_profile_def)
qed

lemma quiet_set_profile:
  assumes "\<forall>i. net i \<noteq> ConnectFails"
  shows "quiet (set_profile net profile_dict)"
proof -
  have 1: "quiet (and_then (set_default_profile net ''Profile 1'' 0)
          (\<lambda>_. set_default_profile net ''Profile 2'' 1))"
    by (intro quiet_and_then quiet_set_default_profile assms)
  have 2: "quiet (and_then (connect_robot net)
          (\<lambda>PF400. try_send net PF400 (profile_command ''Profile 3'' profile_dict)))"
    by (rule quiet_exchange[OF assms])
  show ?thesis using 1 2 by (simp add: quiet_def set_profile_def)
qed

lemma quiet_simple:
  assumes "\<forall>i. net i \<noteq> ConnectFails"
  shows "quiet (check_robot_heartbeat net)" "quiet (stop_robot net)" "quiet (set_speed net speed)"
  using quiet_exchange[OF assms]
  by (simp_all add: quiet_def check_robot_heartbeat_def stop_robot_def set_speed_def)

lemma quiet_program_robot_target:
  assumes "\<forall>i. net i \<noteq> ConnectFails"
  shows "quiet (program_robot_target net job robot_ID_list)"
proof -
  have 1: "quiet (and_then (move_single net ''HomeALL'' 2 False False) (\<lambda>_.
             and_then (pick_plate_ot2 net a 0) (\<lambda>_.
             drop_plate_ot2 net b 0)))" for a b
    by (intro quiet_and_then quiet_move_single quiet_pick_plate_ot2 quiet_drop_plate_ot2 assms)
  have 2: "quiet (and_then (move_single net ''HomeALL'' 2 False False) (\<lambda>_.
        and_then (pick_plate_from_rack net 1 0) (\<lambda>_.
        and_then (drop_plate_ot2 net 1 0) (\<lambda>_.
        and_then (pick_plate_ot2 net 1 0) (\<lambda>_.
        and_then (drop_plate_ot2 net 2 0) (\<lambda>_.
        and_then (pick_plate_ot2 net 2 0) (\<lambda>_.
        and_then (drop_plate_ot2 net 3 0) (\<lambda>_.
        and_then (pick_plate_ot2 net 3 0) (\<lambda>_.
        drop_complete_plate net 0)))))))))"
    by (intro quiet_and_then quiet_move_single quiet_pick_plate_ot2 quiet_drop_plate_ot2
        quiet_pick_plate_from_rack quiet_drop_complete_plate assms)
  show ?thesis
    using 1 2
    by (auto simp: quiet_def program_robot_target_def pure_then_socket_iff item_def
        split: sum.split)
qed

lemma quiet_locate_robot:
  assumes "\<forall>i. net i \<noteq> ConnectFails"
  shows "quiet (locate_robot net)"
  using assms
  by (auto simp: quiet_def locate_robot_def eval_defs split: outcome.split option.split)

lemma quiet_teach_location:
  assumes "\<forall>i. net i \<noteq> ConnectFails"
  shows "quiet (teach_location net location robot_id)"
proof -
  have "quiet (\<lambda>s1. case teach_body location robot_id current_location s1 of
            (r, s2) \<Rightarrow> (Inr (), s2))" for current_location
    by (auto simp: quiet_def split: prod.split)
  then have "quiet (and_then (locate_robot net)
       (\<lambda>current_location s1.
          case teach_body location robot_id current_location s1 of
            (r, s2) \<Rightarrow> (Inr (), s2)))"
    by (intro quiet_and_then quiet_locate_robot assms)
  then show ?thesis by (simp add: quiet_def teach_location_def)
qed

lemma quiet_run:
  assumes "\<forall>i. net i \<noteq> ConnectFails"
  shows "fst (run net op s) \<noteq> Inl SocketError"
proof (cases op)
  case (SetProfile x1)
  then show ?thesis using quiet_set_profile[OF assms] by (simp add: quiet_def)
next
  case CheckRobotHeartbeat
  then show ?thesis using quiet_simple(1)[OF assms] by (simp add: quiet_def)
next
  case StopRobot
  then show ?thesis using quiet_simple(2)[OF assms] by (simp add: quiet_def)
next
  case (PickPlateOt2 x41 x42)
  then show ?thesis using quiet_pick_plate_ot2[OF assms] by (simp add: quiet_def)
next
  case (DropPlateOt2 x51 x52)
  then show ?thesis using quiet_drop_plate_ot2[OF assms] by (simp add: quiet_def)
next
  case (PickPlateFromRack x61 x62)
  then show ?thesis using quiet_pick_plate_from_rack[OF assms] by (simp add: quiet_def)
next
  case (DropCompletePlate x7)
  then show ?thesis using quiet_drop_complete_plate[OF assms] by (simp add: quiet_def)
next
  case (MoveSingle x81 x82 x83 x84)
  then show ?thesis using quiet_move_single[OF assms] by (simp add: quiet_def)
next
  case (ProgramRobotTarget x91 x92)
  then show ?thesis using quiet_program_robot_target[OF assms] by (simp add: quiet_def)
next
  case (SetSpeed x10)
  then show ?thesis using quiet_simple(3)[OF assms] by (simp add: quiet_def)
next
  case LocateRobot
  then show ?thesis using quiet_locate_robot[OF assms]
    by (auto simp: quiet_def split: prod.split sum.split) (metis fst_conv)
next
  case (TeachLocation x121 x122)
  then show ?thesis using quiet_teach_location[OF assms] by (simp add: quiet_def)
qed


section \<open>Transport failures, sockets and invalid arguments\<close>

lemma exchange_swallowed:
  assumes "net (conns s) = SendFails \<or> net (conns s) = RecvFails"
  shows "and_then (connect_robot net) (\<lambda>PF400. try_send net PF400 command) s
          = (Inr (), s\<lparr>conns := Suc (conns s),
                        trace := trace s @ [Opened (conns s), Send (conns s) command]\<rparr>)"
  using assms by (auto simp: eval_defs)

lemma exchange_answered:
  assumes "answered (net (conns s))"
  shows "and_then (connect_robot net) (\<lambda>PF400. try_send net PF400 command) s
          = (Inr (), s\<lparr>conns := Suc (conns s),
                        trace := trace s @ [Opened (conns s), Send (conns s) command, Closed (conns s)]\<rparr>)"
  using assms by (cases "net (conns s)") (auto simp: eval_defs)

lemma exchange_refused:
  assumes "net (conns s) = ConnectFails"
  shows "fst (and_then (connect_robot net) f s) = Inl SocketError"
  using assms by (auto simp: eval_defs)

lemma teach_location_returns:
  assumes "locate_robot net s = (Inr current_location, s1)"
  shows "teach_location net location robot_id s
           = (Inr (), snd (teach_body location robot_id current_location s1))"
  using assms by (simp add: teach_location_def and_then_def split: prod.split)

text \<open>
  C5 (amended). For every operation that issues commands, when the transport fails during
  the call the location table is the same after the call as before it. What the caller
  gets is a transport error only for a failed \<^verbatim>\<open>connect\<close>: unless some connect fails,
  no operation ends in a \<^verbatim>\<open>socket.error\<close>. A failed \<^verbatim>\<open>send\<close> or \<^verbatim>\<open>recv\<close> is
  caught, and \<^verbatim>\<open>stop_robot\<close> and \<^verbatim>\<open>move_single\<close> (to a known location, with a
  valid profile) then return normally; a failed connect makes both end in the
  \<^verbatim>\<open>socket.error\<close>.
\<close>

theorem transport_failure_effects:
  "(transport_failed net s (snd (run net op s)) \<longrightarrow>
      location_dictionary (snd (run net op s)) = location_dictionary s)
   \<and> ((\<forall>i. net i \<noteq> ConnectFails) \<longrightarrow> fst (run net op s) \<noteq> Inl SocketError)
   \<and> (net (conns s) = SendFails \<or> net (conns s) = RecvFails \<longrightarrow>
        fst (stop_robot net s) = Inr ()
        \<and> (set_move_command s target_location profile grap release \<noteq> Inl KeyError
             \<and> (profile = 1 \<or> profile = 2 \<or> profile = 3) \<longrightarrow>
            fst (move_single net target_location profile grap release s) = Inr ()))
   \<and> (net (conns s) = ConnectFails \<longrightarrow>
        fst (stop_robot net s) = Inl SocketError
        \<and> fst (move_single net target_location profile grap release s) = Inl SocketError)"
proof (intro conjI impI)
  assume "transport_failed net s (snd (run net op s))"
  then show "location_dictionary (snd (run net op s)) = location_dictionary s"
    by (rule run_table_on_failure)
next
  assume "\<forall>i. net i \<noteq> ConnectFails"
  then show "fst (run net op s) \<noteq> Inl SocketError"
    by (rule quiet_run)
next
  assume "net (conns s) = SendFails \<or> net (conns s) = RecvFails"
  then show "fst (stop_robot net s) = Inr ()"
    by (simp add: stop_robot_def exchange_swallowed)
next
  assume f: "net (conns s) = SendFails \<or> net (conns s) = RecvFails"
    and v: "set_move_command s target_location profile grap release \<noteq> Inl KeyError
             \<and> (profile = 1 \<or> profile = 2 \<or> profile = 3)"
  then obtain command where c: "set_move_command s target_location profile grap release = Inr command"
    by (auto simp: set_move_command_def pure_then_def split: option.splits)
  have "set_move_command (s\<lparr>conns := Suc (conns s), trace := trace s @ [Opened (conns s)]\<rparr>)
          target_location profile grap release = Inr command"
    using c by (simp add: set_move_command_def)
  then show "fst (move_single net target_location profile grap release s) = Inr ()"
    using f by (auto simp: move_single_def eval_defs)
next
  assume "net (conns s) = ConnectFails"
  then show "fst (stop_robot net s) = Inl SocketError"
    by (simp add: stop_robot_def exchange_refused)
next
  assume "net (conns s) = ConnectFails"
  then show "fst (move_single net target_location profile grap release s) = Inl SocketError"
    by (simp add: move_single_def exchange_refused)
qed

theorem transport_failure_effects_witness:
  "transport_failed send_fails example_client
     (snd (run send_fails (MoveSingle ''HomeALL'' 2 False False) example_client))
   \<and> location_dictionary (snd (run send_fails (MoveSingle ''HomeALL'' 2 False False) example_client))
       = location_dictionary example_client
   \<and> (\<forall>i. send_fails i \<noteq> ConnectFails)
   \<and> fst (run send_fails (MoveSingle ''HomeALL'' 2 False False) example_client) \<noteq> Inl SocketError
   \<and> fst (stop_robot send_fails example_client) = Inr ()
   \<and> fst (move_single send_fails ''HomeALL'' 2 False False example_client) = Inr ()
   \<and> fst (stop_robot connect_fails example_client) = Inl SocketError
   \<and> fst (move_single connect_fails ''HomeALL'' 2 False False example_client) = Inl SocketError"
proof -
  have failed: "transport_failed send_fails example_client
     (snd (run send_fails (MoveSingle ''HomeALL'' 2 False False) example_client))"
    by (simp add: transport_failed_def move_single_def set_move_command_def send_fails_def
      example_client_def example_joints_def eval_defs)
  have never: "\<forall>i. send_fails i \<noteq> ConnectFails"
    by (simp add: send_fails_def)
  have sf: "send_fails (conns example_client) = SendFails \<or> send_fails (conns example_client) = RecvFails"
    by (simp add: send_fails_def)
  have valid: "set_move_command example_client ''HomeALL'' 2 False False \<noteq> Inl KeyError
             \<and> ((2::int) = 1 \<or> (2::int) = 2 \<or> (2::int) = 3)"
    by (simp add: set_move_command_def example_client_def pure_then_def)
  have cf: "connect_fails (conns example_client) = ConnectFails"
    by (simp add: connect_fails_def)
  show ?thesis
    using transport_failure_effects[of send_fails example_client
            "MoveSingle ''HomeALL'' 2 False False" "''HomeALL''" 2 False False]
          transport_failure_effects[of connect_fails example_client
            "MoveSingle ''HomeALL'' 2 False False" "''HomeALL''" 2 False False]
          failed never sf valid cf
    by blast
qed

text \<open>
  The claim as first stated fails: every \<^verbatim>\<open>send\<close> fails, and \<^verbatim>\<open>move_single\<close>
  returns normally, with no error for its caller.
\<close>

theorem move_single_send_failure_counterexample:
  "transport_failed send_fails example_client
     (snd (move_single send_fails ''HomeALL'' 2 False False example_client))
   \<and> fst (move_single send_fails ''HomeALL'' 2 False False example_client) = Inr ()"
  by (simp add: transport_failed_def move_single_def set_move_command_def send_fails_def
      example_client_def example_joints_def eval_defs)

lemma sent_on_iff: "sent_on i tr \<longleftrightarrow> (\<exists>c. Send i c \<in> set tr)"
  unfolding sent_on_def
  by (induction tr) (auto split: event.split)

lemma sent_closed_refl: "sent_closed net s s"
  by (simp add: sent_closed_def)

lemma sent_closed_trans:
  assumes "sent_closed net a b" and "sent_closed net b c"
  shows "sent_closed net a c"
  unfolding sent_closed_def
proof (intro conjI allI impI)
  show "set (trace a) \<subseteq> set (trace c)"
    using assms by (auto simp: sent_closed_def)
next
  fix i assume h: "sent_on i (trace c) \<and> answered (net i)"
  then have "sent_on i (trace b) \<or> Closed i \<in> set (trace c)"
    using assms(2) by (simp add: sent_closed_def)
  moreover have "sent_on i (trace b) \<Longrightarrow> sent_on i (trace a) \<or> Closed i \<in> set (trace b)"
    using assms(1) h by (simp add: sent_closed_def)
  moreover have "Closed i \<in> set (trace b) \<Longrightarrow> Closed i \<in> set (trace c)"
    using assms(2) by (auto simp: sent_closed_def)
  ultimately show "sent_on i (trace a) \<or> Closed i \<in> set (trace c)" by blast
qed

lemma compatible_sent_closed: "compatible net (sent_closed net)"
  unfolding compatible_def
proof (intro conjI allI impI)
  fix s show "sent_closed net s s" by (rule sent_closed_refl)
next
  fix a b c assume "sent_closed net a b" "sent_closed net b c"
  then show "sent_closed net a c" by (rule sent_closed_trans)
next
  show "steps (sent_closed net) (connect_robot net)"
    by (auto simp: steps_def sent_closed_def sent_on_iff eval_defs split: outcome.split)
next
  fix PF400 command
  show "steps (sent_closed net) (try_send net PF400 command)"
    by (auto simp: steps_def sent_closed_def sent_on_iff eval_defs
        split: outcome.split option.split)
qed

lemma locate_robot_trace:
  assumes "net (conns s) = Reply r"
  shows "trace (snd (locate_robot net s))
           = trace s @ [Opened (conns s), Send (conns s) ''wherej\<newline>'']
             @ (if those (map parse_int (split_on CHR '' '' r)) = None then []
                else [Closed (conns s)])"
  using assms by (auto simp: locate_robot_def eval_defs split: option.split)

lemma teach_location_trace:
  "trace (snd (teach_location net location robot_id s)) = trace (snd (locate_robot net s))"
proof -
  obtain r s1 where l: "locate_robot net s = (r, s1)" by (cases "locate_robot net s")
  have "trace s2 = trace s1" if "teach_body location robot_id cur s1 = (r2, s2)" for cur r2 s2
    using teach_body_trace[of location robot_id cur s1] that by simp
  then show ?thesis using l
    by (cases r) (auto simp: teach_location_def and_then_def split: prod.split)
qed

lemma exchange_undecodable:
  assumes "net (conns s) = Undecodable"
  shows "and_then (connect_robot net) (\<lambda>PF400. try_send net PF400 command) s
          = (Inl UnicodeDecodeError,
             s\<lparr>conns := Suc (conns s),
               trace := trace s @ [Opened (conns s), Send (conns s) command]\<rparr>)"
  using assms by (auto simp: eval_defs)

text \<open>
  C6 (amended). An operation closes a socket only after the robot's reply on it was
  received and decoded: in every operation, each socket closed during the call is one on
  which the robot answered. Every operation other than \<^verbatim>\<open>locate_robot\<close> and
  \<^verbatim>\<open>teach_location\<close> closes each socket on which it sent its command and the robot
  answered; \<^verbatim>\<open>stop_robot\<close> then opens, sends \<^verbatim>\<open>halt\<close> and closes.
  \<^verbatim>\<open>locate_robot\<close>, and \<^verbatim>\<open>teach_location\<close>, which does nothing to sockets beyond
  calling it, closes the socket only when the reply also parses as integers: on a reply
  that does not parse the socket stays open. When \<^verbatim>\<open>send\<close> or \<^verbatim>\<open>recv\<close> fails, or
  the reply cannot be decoded, \<^verbatim>\<open>stop_robot\<close> opens, sends, and does not close.
\<close>

theorem socket_closed_only_after_reply:
  "(answered (net (conns s)) \<longrightarrow>
      trace (snd (stop_robot net s))
        = trace s @ [Opened (conns s), Send (conns s) ''halt\<newline>'', Closed (conns s)])
   \<and> (net (conns s) = SendFails \<or> net (conns s) = RecvFails \<longrightarrow>
      trace (snd (stop_robot net s)) = trace s @ [Opened (conns s), Send (conns s) ''halt\<newline>''])
   \<and> (\<forall>i. Closed i \<in> set (trace (snd (run net op s))) \<longrightarrow>
          Closed i \<in> set (trace s) \<or> answered (net i))
   \<and> (op \<noteq> LocateRobot \<and> (\<forall>location robot_id. op \<noteq> TeachLocation location robot_id) \<longrightarrow>
        (\<forall>i. sent_on i (trace (snd (run net op s))) \<and> answered (net i) \<longrightarrow>
           sent_on i (trace s) \<or> Closed i \<in> set (trace (snd (run net op s)))))
   \<and> (net (conns s) = Reply r \<longrightarrow>
        trace (snd (locate_robot net s))
          = trace s @ [Opened (conns s), Send (conns s) ''wherej\<newline>'']
            @ (if those (map parse_int (split_on CHR '' '' r)) = None then []
               else [Closed (conns s)]))
   \<and> trace (snd (teach_location net location robot_id s)) = trace (snd (locate_robot net s))
   \<and> (net (conns s) = Undecodable \<longrightarrow>
        trace (snd (stop_robot net s)) = trace s @ [Opened (conns s), Send (conns s) ''halt\<newline>''])"
proof (intro conjI impI)
  assume "answered (net (conns s))"
  then show "trace (snd (stop_robot net s))
        = trace s @ [Opened (conns s), Send (conns s) ''halt\<newline>'', Closed (conns s)]"
    by (simp add: stop_robot_def exchange_answered)
next
  assume "net (conns s) = SendFails \<or> net (conns s) = RecvFails"
  then show "trace (snd (stop_robot net s)) = trace s @ [Opened (conns s), Send (conns s) ''halt\<newline>'']"
    by (simp add: stop_robot_def exchange_swallowed)
next
  show "\<forall>i. Closed i \<in> set (trace (snd (run net op s))) \<longrightarrow>
          Closed i \<in> set (trace s) \<or> answered (net i)"
    using run_closed_answered[of net s op] by (simp add: closed_answered_iff)
next
  assume h: "op \<noteq> LocateRobot \<and> (\<forall>location robot_id. op \<noteq> TeachLocation location robot_id)"
  then have "sent_closed net s (snd (run net op s))"
    using steps_run_commands[OF compatible_sent_closed, of op net s] by blast
  then show "\<forall>i. sent_on i (trace (snd (run net op s))) \<and> answered (net i) \<longrightarrow>
           sent_on i (trace s) \<or> Closed i \<in> set (trace (snd (run net op s)))"
    by (simp add: sent_closed_def)
next
  assume "net (conns s) = Reply r"
  then show "trace (snd (locate_robot net s))
          = trace s @ [Opened (conns s), Send (conns s) ''wherej\<newline>'']
            @ (if those (map parse_int (split_on CHR '' '' r)) = None then []
               else [Closed (conns s)])"
    by (rule locate_robot_trace)
next
  show "trace (snd (teach_location net location robot_id s)) = trace (snd (locate_robot net s))"
    by (rule teach_location_trace)
next
  assume "net (conns s) = Undecodable"
  then show "trace (snd (stop_robot net s)) = trace s @ [Opened (conns s), Send (conns s) ''halt\<newline>'']"
    by (simp add: stop_robot_def exchange_undecodable)
qed

theorem socket_closed_only_after_reply_witness:
  "answered (robot_ok (conns example_client))
   \<and> trace (snd (stop_robot robot_ok example_client)) = [Opened 0, Send 0 ''halt\<newline>'', Closed 0]
   \<and> (send_fails (conns example_client) = SendFails \<or> send_fails (conns example_client) = RecvFails)
   \<and> trace (snd (stop_robot send_fails example_client)) = [Opened 0, Send 0 ''halt\<newline>'']
   \<and> Closed 0 \<in> set (trace (snd (run robot_ok StopRobot example_client)))
   \<and> (Closed 0 \<in> set (trace example_client) \<or> answered (robot_ok 0))
   \<and> sent_on 0 (trace (snd (run robot_ok StopRobot example_client)))
   \<and> \<not> sent_on 0 (trace example_client)
   \<and> robot_reports (conns example_client) = Reply ''5 6 7 8 9 10''
   \<and> trace (snd (locate_robot robot_reports example_client))
       = [Opened 0, Send 0 ''wherej\<newline>'', Closed 0]
   \<and> robot_garbled (conns example_client) = Reply ''5  6''
   \<and> trace (snd (locate_robot robot_garbled example_client)) = [Opened 0, Send 0 ''wherej\<newline>'']
   \<and> trace (snd (teach_location robot_garbled ''HomeALL'' None example_client))
       = [Opened 0, Send 0 ''wherej\<newline>'']
   \<and> reply_undecodable (conns example_client) = Undecodable
   \<and> trace (snd (stop_robot reply_undecodable example_client)) = [Opened 0, Send 0 ''halt\<newline>'']"
proof -
  have z: "conns example_client = 0" "trace example_client = []"
    by (simp_all add: example_client_def)
  have a: "answered (robot_ok (conns example_client))" by (simp add: robot_ok_def)
  have f: "send_fails (conns example_client) = SendFails \<or> send_fails (conns example_client) = RecvFails"
    by (simp add: send_fails_def)
  have st: "sent_on 0 (trace (snd (run robot_ok StopRobot example_client)))"
    by (simp add: stop_robot_def robot_ok_def example_client_def eval_defs sent_on_def)
  have nst: "\<not> sent_on 0 (trace example_client)"
    by (simp add: z sent_on_def)
  have op: "StopRobot \<noteq> LocateRobot \<and> (\<forall>location robot_id. StopRobot \<noteq> TeachLocation location robot_id)"
    by simp
  have r1: "robot_reports (conns example_client) = Reply ''5 6 7 8 9 10''"
    by (simp add: robot_reports_def)
  have p1: "those (map parse_int (split_on CHR '' '' ''5 6 7 8 9 10'')) \<noteq> None"
    by (simp add: parse_int_def strip_def is_space_def parse_nat_def digit_value_def)
  have r2: "robot_garbled (conns example_client) = Reply ''5  6''"
    by (simp add: robot_garbled_def)
  have p2: "those (map parse_int (split_on CHR '' '' ''5  6'')) = None"
    by (simp add: parse_int_def strip_def is_space_def parse_nat_def digit_value_def)
  have u: "reply_undecodable (conns example_client) = Undecodable"
    by (simp add: reply_undecodable_def)
  note t1 = socket_closed_only_after_reply[of robot_ok example_client StopRobot "''0''" "''HomeALL''" None]
  have c: "Closed 0 \<in> set (trace (snd (run robot_ok StopRobot example_client)))"
    using t1 op st nst a by (auto simp: z)
  note t2 = socket_closed_only_after_reply[of send_fails example_client StopRobot "''0''" "''HomeALL''" None]
  note t3 = socket_closed_only_after_reply[of robot_reports example_client StopRobot
              "''5 6 7 8 9 10''" "''HomeALL''" None]
  note t4 = socket_closed_only_after_reply[of robot_garbled example_client StopRobot
              "''5  6''" "''HomeALL''" None]
  note t5 = socket_closed_only_after_reply[of reply_undecodable example_client StopRobot
              "''0''" "''HomeALL''" None]
  have s1: "trace (snd (stop_robot robot_ok example_client)) = [Opened 0, Send 0 ''halt\<newline>'', Closed 0]"
    using t1 a by (simp add: z)
  have s2: "trace (snd (stop_robot send_fails example_client)) = [Opened 0, Send 0 ''halt\<newline>'']"
    using t2 f by (auto simp: z)
  have s3: "Closed 0 \<in> set (trace example_client) \<or> answered (robot_ok 0)"
    using t1 c by blast
  have s4: "trace (snd (locate_robot robot_reports example_client))
       = [Opened 0, Send 0 ''wherej\<newline>'', Closed 0]"
    using t3 r1 p1 by (simp add: z)
  have s5: "trace (snd (locate_robot robot_garbled example_client)) = [Opened 0, Send 0 ''wherej\<newline>'']"
    using t4 r2 p2 by (simp add: z)
  have s6: "trace (snd (teach_location robot_garbled ''HomeALL'' None example_client))
       = [Opened 0, Send 0 ''wherej\<newline>'']"
    using t4 s5 by simp
  have s7: "trace (snd (stop_robot reply_undecodable example_client)) = [Opened 0, Send 0 ''halt\<newline>'']"
    using t5 u by (simp add: z)
  show ?thesis
    using a s1 f s2 c s3 st nst r1 s4 r2 s5 s6 u s7 by blast
qed

text \<open>
  The claim as first stated fails: after a failed \<^verbatim>\<open>send\<close>, \<^verbatim>\<open>stop_robot\<close> has
  opened socket 0 and never closed it.
\<close>

theorem stop_robot_leaves_socket_open_counterexample:
  "trace (snd (stop_robot send_fails example_client)) = [Opened 0, Send 0 ''halt\<newline>'']
   \<and> Closed 0 \<notin> set (trace (snd (stop_robot send_fails example_client)))"
  by (simp add: stop_robot_def send_fails_def example_client_def eval_defs)

text \<open>
  C7 (amended). \<^verbatim>\<open>set_profile\<close> with a count other than 1 or 8 and
  \<^verbatim>\<open>set_move_command\<close> with a profile other than 1, 2 or 3 raise an \<^verbatim>\<open>Exception\<close>
  to the caller. \<^verbatim>\<open>teach_location\<close> catches what its body raises: once
  \<^verbatim>\<open>locate_robot\<close> has returned a list it returns normally for every location name, and
  for a name it does not recognize (no robot id, or a robot id with a name that is none
  of the four station names) the location table is unchanged.
  \<^verbatim>\<open>program_robot_target\<close> with a job name that is neither \<^verbatim>\<open>TRANSFER\<close> nor
  \<^verbatim>\<open>FULL_TRANSFER\<close> does nothing and returns normally.
\<close>

theorem invalid_arguments_outcome:
  "(length profile_dict \<noteq> 1 \<and> length profile_dict \<noteq> 8 \<longrightarrow>
      fst (set_profile net profile_dict s)
        = Inl (Exception (''Motion profile takes 8 arguments, ''
                           @ str_nat (length profile_dict) @ '' where given'')))
   \<and> (profile \<noteq> 1 \<and> profile \<noteq> 2 \<and> profile \<noteq> 3 \<longrightarrow>
      set_move_command s robot_location profile grab release
        = Inl (Exception ''Please enter a valid motion profiile! 1 for slower movement, 2 for faster movement profile, 3 for modified profile''))
   \<and> (fst (locate_robot net s) = Inr current_location \<longrightarrow>
      fst (teach_location net location robot_id s) = Inr ())
   \<and> (fst (locate_robot net s) = Inr current_location
        \<and> (robot_id = None \<or> (\<exists>rid. robot_id = Some rid \<and> station_key location rid = None)) \<longrightarrow>
      location_dictionary (snd (teach_location net location robot_id s)) = location_dictionary s)
   \<and> (upper job \<noteq> ''TRANSFER'' \<and> upper job \<noteq> ''FULL_TRANSFER'' \<longrightarrow>
      program_robot_target net job robot_ID_list s = (Inr (), s))"
proof (intro conjI impI)
  assume "length profile_dict \<noteq> 1 \<and> length profile_dict \<noteq> 8"
  then show "fst (set_profile net profile_dict s)
        = Inl (Exception (''Motion profile takes 8 arguments, ''
                           @ str_nat (length profile_dict) @ '' where given''))"
    by (simp add: set_profile_def)
next
  assume "profile \<noteq> 1 \<and> profile \<noteq> 2 \<and> profile \<noteq> 3"
  then show "set_move_command s robot_location profile grab release
        = Inl (Exception ''Please enter a valid motion profiile! 1 for slower movement, 2 for faster movement profile, 3 for modified profile'')"
    by (simp add: set_move_command_def pure_then_def)
next
  assume l: "fst (locate_robot net s) = Inr current_location"
  then obtain s1 where "locate_robot net s = (Inr current_location, s1)"
    by (cases "locate_robot net s") simp
  then show "fst (teach_location net location robot_id s) = Inr ()"
    by (simp add: teach_location_returns)
next
  assume h: "fst (locate_robot net s) = Inr current_location
        \<and> (robot_id = None \<or> (\<exists>rid. robot_id = Some rid \<and> station_key location rid = None))"
  then obtain s1 where l: "locate_robot net s = (Inr current_location, s1)"
    by (cases "locate_robot net s") simp
  have t: "location_dictionary s1 = location_dictionary s"
    using locate_robot_same_table[of net] l by (metis steps_def same_table_def snd_conv)
  have "location_dictionary (snd (teach_body location robot_id current_location s1))
          = location_dictionary s1"
    using h by (auto simp: teach_body_def lower_method_equals_def teach_key_def)
  then show "location_dictionary (snd (teach_location net location robot_id s)) = location_dictionary s"
    using l t by (simp add: teach_location_returns)
next
  assume "upper job \<noteq> ''TRANSFER'' \<and> upper job \<noteq> ''FULL_TRANSFER''"
  then show "program_robot_target net job robot_ID_list s = (Inr (), s)"
    by (simp add: program_robot_target_def)
qed

theorem invalid_arguments_outcome_witness:
  "fst (set_profile robot_ok [] example_client)
     = Inl (Exception ''Motion profile takes 8 arguments, 0 where given'')
   \<and> set_move_command example_client ''HomeALL'' 0 False False
     = Inl (Exception ''Please enter a valid motion profiile! 1 for slower movement, 2 for faster movement profile, 3 for modified profile'')
   \<and> fst (locate_robot robot_reports example_client) = Inr [5, 6, 7, 8, 9, 10]
   \<and> fst (teach_location robot_reports ''nowhere'' None example_client) = Inr ()
   \<and> location_dictionary (snd (teach_location robot_reports ''nowhere'' None example_client))
       = location_dictionary example_client
   \<and> program_robot_target robot_ok ''calibrate'' [0, 0] example_client = (Inr (), example_client)"
proof -
  have count: "length ([] :: (string \<times> pynum) list) \<noteq> 1 \<and> length ([] :: (string \<times> pynum) list) \<noteq> 8"
    by simp
  have prof: "(0::int) \<noteq> 1 \<and> (0::int) \<noteq> 2 \<and> (0::int) \<noteq> 3"
    by simp
  have loc: "fst (locate_robot robot_reports example_client) = Inr [5, 6, 7, 8, 9, 10]"
    by (simp add: locate_robot_def robot_reports_def eval_defs
        parse_int_def strip_def is_space_def parse_nat_def digit_value_def)
  have none: "(None :: int option) = None \<or> (\<exists>rid. (None :: int option) = Some rid \<and> station_key ''nowhere'' rid = None)"
    by simp
  have job: "upper ''calibrate'' \<noteq> ''TRANSFER'' \<and> upper ''calibrate'' \<noteq> ''FULL_TRANSFER''"
    by (simp add: upper_def upper_char_def)
  have zero: "str_nat (length ([] :: (string \<times> pynum) list)) = ''0''"
    by (simp add: str_nat.simps digit_char_def)
  show ?thesis
    using invalid_arguments_outcome[of "[]" robot_ok example_client 0 "''HomeALL''" False False
            "[5, 6, 7, 8, 9, 10]" "''nowhere''" None "''calibrate''" "[0, 0]"]
          invalid_arguments_outcome[of "[]" robot_reports example_client 0 "''HomeALL''" False False
            "[5, 6, 7, 8, 9, 10]" "''nowhere''" None "''calibrate''" "[0, 0]"]
          count prof loc none job zero
    by simp
qed

text \<open>
  The claim as first stated fails: an unknown job name and an unknown location name both
  end in a normal return.
\<close>

theorem unrecognized_job_counterexample:
  "program_robot_target robot_ok ''calibrate'' [0, 0] example_client = (Inr (), example_client)
   \<and> fst (teach_location robot_reports ''nowhere'' None example_client) = Inr ()"
  by (simp add: program_robot_target_def upper_def upper_char_def
      teach_location_def teach_body_def lower_method_equals_def locate_robot_def
      example_client_def example_joints_def eval_defs robot_reports_def
      parse_int_def strip_def is_space_def parse_nat_def digit_value_def)

end
